theory Spec2Isabelle
  imports Main "HOL-Library.Sublist" "HOL-Library.Multiset"
begin

section \<open>A model of the browser objects the engine works on\<close>

subsection \<open>DOM trees\<close>

text \<open>
  An element is an object with an identity: \<open>ident\<close> stands for the object reference
  that JavaScript compares with \<^verbatim>\<open>===\<close>. Its local name is kept in lower case, its
  attributes are the ordered name/value list of \<^verbatim>\<open>element.attributes\<close>. A document is
  the list of the children of the Document node; detached trees are kept beside it.
\<close>

type_synonym attrs = "(string \<times> string) list"

datatype node =
    Element (ident: nat) (localName: string) (attributes: attrs) (childNodes: "node list")
  | Text string

definition getAttribute :: "attrs \<Rightarrow> string \<Rightarrow> string option" where
  "getAttribute as n = map_of as n"

fun setAttribute :: "string \<Rightarrow> string \<Rightarrow> attrs \<Rightarrow> attrs" where
  "setAttribute n v [] = [(n, v)]"
| "setAttribute n v ((k, x) # as) =
     (if k = n then (k, v) # as else (k, x) # setAttribute n v as)"

definition removeAttribute :: "string \<Rightarrow> attrs \<Rightarrow> attrs" where
  "removeAttribute n as = filter (\<lambda>kv. fst kv \<noteq> n) as"

fun isElement :: "node \<Rightarrow> bool" where
  "isElement (Element i t a ks) = True"
| "isElement (Text s) = False"

fun hasTag :: "string \<Rightarrow> node \<Rightarrow> bool" where
  "hasTag t (Element i u a ks) = (u = t)"
| "hasTag t (Text s) = False"

fun attrOf :: "string \<Rightarrow> node \<Rightarrow> string option" where
  "attrOf n (Element i t a ks) = getAttribute a n"
| "attrOf n (Text s) = None"

text \<open>The elements of a tree in document order (the order of \<^verbatim>\<open>querySelectorAll\<close>).\<close>

fun elements :: "node \<Rightarrow> node list" where
  "elements (Text s) = []"
| "elements (Element i t a ks) = Element i t a ks # concat (map elements ks)"

definition forestElements :: "node list \<Rightarrow> node list" where
  "forestElements ns = concat (map elements ns)"

fun descendants :: "node \<Rightarrow> node list" where
  "descendants (Text s) = []"
| "descendants (Element i t a ks) = forestElements ks"

definition idents :: "node list \<Rightarrow> nat list" where
  "idents ns = map ident (forestElements ns)"

text \<open>
  \<open>substNode i f\<close> puts \<open>f e\<close> in the place of the element \<open>e\<close> whose identity is
  \<open>i\<close>: removal is \<open>f e = []\<close>, replacement \<open>f e = [n]\<close>, an update of the element
  in place \<open>f e = [e']\<close>.
\<close>

fun substNode :: "nat \<Rightarrow> (node \<Rightarrow> node list) \<Rightarrow> node \<Rightarrow> node list" where
  "substNode i f (Text s) = [Text s]"
| "substNode i f (Element j t a ks) =
     (if j = i then f (Element j t a ks)
      else [Element j t a (concat (map (substNode i f) ks))])"

definition substForest :: "nat \<Rightarrow> (node \<Rightarrow> node list) \<Rightarrow> node list \<Rightarrow> node list" where
  "substForest i f ns = concat (map (substNode i f) ns)"

definition lookupNode :: "nat \<Rightarrow> node list \<Rightarrow> node option" where
  "lookupNode i ns = find (\<lambda>e. ident e = i) (forestElements ns)"

definition removeNode :: "nat \<Rightarrow> node list \<Rightarrow> node list" where
  "removeNode i ns = substForest i (\<lambda>e. []) ns"

fun withChildren :: "(node list \<Rightarrow> node list) \<Rightarrow> node \<Rightarrow> node" where
  "withChildren g (Element i t a ks) = Element i t a (g ks)"
| "withChildren g (Text s) = Text s"

fun withAttributes :: "(attrs \<Rightarrow> attrs) \<Rightarrow> node \<Rightarrow> node" where
  "withAttributes g (Element i t a ks) = Element i t (g a) ks"
| "withAttributes g (Text s) = Text s"

text \<open>
  \<^verbatim>\<open>document.documentElement\<close>, \<^verbatim>\<open>document.head\<close> and \<^verbatim>\<open>document.body\<close>: the
  first element child of the document; the first \<open>head\<close> child of an \<open>html\<close> root; its
  first \<open>body\<close> or \<open>frameset\<close> child. Each is \<^verbatim>\<open>null\<close> when there is none.
\<close>

definition documentElement :: "node list \<Rightarrow> node option" where
  "documentElement d = find isElement d"

definition headOf :: "node list \<Rightarrow> node option" where
  "headOf d =
     (case documentElement d of
        Some (Element i t a ks) \<Rightarrow> if t = ''html'' then find (hasTag ''head'') ks else None
      | _ \<Rightarrow> None)"

definition bodyOf :: "node list \<Rightarrow> node option" where
  "bodyOf d =
     (case documentElement d of
        Some (Element i t a ks) \<Rightarrow>
          if t = ''html'' then find (\<lambda>n. hasTag ''body'' n \<or> hasTag ''frameset'' n) ks
          else None
      | _ \<Rightarrow> None)"

subsection \<open>URLs, history entries, responses\<close>

text \<open>
  A URL object by the four components the engine reads. \<open>href\<close> is the serialisation of
  a URL without credentials: origin, path, query, fragment. \<open>search\<close> and \<open>hash\<close> are
  empty or start with \<^verbatim>\<open>?\<close> and \<^verbatim>\<open>#\<close>.
\<close>

record url =
  origin :: string
  pathname :: string
  search :: string
  hash :: string

definition href :: "url \<Rightarrow> string" where
  "href u = origin u @ pathname u @ search u @ hash u"

text \<open>
  The state object the engine stores in a history entry. Every state the engine writes
  has the three fields \<open>index\<close>, \<open>scrollX\<close>, \<open>scrollY\<close>; the caller's own keys
  (\<^verbatim>\<open>options.state\<close>) are kept in \<open>callerState\<close>. Scroll offsets are taken as integers.
\<close>

record hstate =
  index :: int
  scrollX :: int
  scrollY :: int
  callerState :: attrs

record response =
  contentTypeHeader :: "string option"
  bodyText :: "string option"
  redirected :: bool
  responseUrl :: string

record connection =
  saveData :: bool
  effectiveType :: string

text \<open>The live state of a text control: its value and its selection offsets.\<close>

record textControl =
  controlValue :: string
  selectionStart :: nat
  selectionEnd :: nat

datatype exn =
  TypeError | SkippedTransition | HierarchyRequestError | InvalidStateError | SecurityError

datatype direction = Forward | Back

datatype navigationType = Push | Replace | Traverse

text \<open>What the engine asks of the browser, in the order it asks.\<close>

datatype effect =
    Fetch string "string option"
  | AssignHref string
  | FragmentNavigation string
  | Reload
  | PushState hstate string
  | ReplaceState "hstate option" "string option"
  | Dispatch string
  | ScrollTo int int
  | Animate string
  | StartViewTransition
  | Timer nat
  | RunScript nat
  | AwaitLoad nat

subsection \<open>The page\<close>

text \<open>
  The module's variables (\<open>navigationIndex\<close>, \<open>currentLocation\<close>, \<open>skipTransition\<close>,
  \<open>prefetchedPages\<close>), the browser state they are compared with, and the browser's own
  functions, which are not part of the repository and are parameters of the model: the
  network (\<open>None\<close> is a rejected \<^verbatim>\<open>fetch\<close>), the HTML parser and the URL parser
  (\<open>None\<close> is the \<^verbatim>\<open>TypeError\<close> of \<^verbatim>\<open>new URL\<close>). \<open>listenersCancel\<close> says whether a
  listener of the page cancels the before-preparation event.
\<close>

record world =
  location :: url
  historyState :: "hstate option"
  scrollRestoration :: string
  windowScrollX :: int
  windowScrollY :: int
  navigationIndex :: int
  currentLocation :: url
  skipTransition :: bool
  supportsViewTransitions :: bool
  onLine :: bool
  connection :: "connection option"
  prefetchedPages :: "string set"
  document :: "node list"
  detached :: "node list"
  activeElement :: "nat option"
  textControls :: "nat \<Rightarrow> textControl option"
  nextId :: nat
  listenersCancel :: bool
  network :: "string \<Rightarrow> string option \<Rightarrow> response option"
  domParser :: "string \<Rightarrow> string \<Rightarrow> node list"
  urlParse :: "url \<Rightarrow> string \<Rightarrow> url option"
  trace :: "effect list"

definition emit :: "effect \<Rightarrow> world \<Rightarrow> world" where
  "emit e w = w\<lparr>trace := trace w @ [e]\<rparr>"

text \<open>\<^verbatim>\<open>document.createElement\<close>: a new object, with an identity no other element has.\<close>

definition createElement :: "string \<Rightarrow> world \<Rightarrow> node \<times> world" where
  "createElement t w = (Element (nextId w) t [] [], w\<lparr>nextId := Suc (nextId w)\<rparr>)"

text \<open>\<^verbatim>\<open>document.head.append(n)\<close>; reading \<^verbatim>\<open>append\<close> of \<^verbatim>\<open>null\<close> throws.\<close>

definition appendToHead :: "node list \<Rightarrow> world \<Rightarrow> exn option \<times> world" where
  "appendToHead ns w =
     (case headOf (document w) of
        None \<Rightarrow> (Some TypeError, w)
      | Some h \<Rightarrow>
          (None, w\<lparr>document :=
             substForest (ident h) (\<lambda>e. [withChildren (\<lambda>ks. ks @ ns) e]) (document w)\<rparr>))"

section \<open>Prefetch manager\<close>

text \<open>\<^verbatim>\<open>/2g/.test(s)\<close>: the text occurs somewhere in \<open>s\<close>.\<close>

fun containsText :: "string \<Rightarrow> string \<Rightarrow> bool" where
  "containsText pat [] = (pat = [])"
| "containsText pat (c # cs) = (prefix pat (c # cs) \<or> containsText pat cs)"

definition isSlowConnection :: "world \<Rightarrow> bool" where
  "isSlowConnection w =
     (case connection w of
        Some c \<Rightarrow> saveData c \<or> containsText ''2g'' (effectiveType c)
      | None \<Rightarrow> False)"

definition canPrefetch :: "world \<Rightarrow> string \<Rightarrow> bool \<Rightarrow> bool" where
  "canPrefetch w u ignoreSlow =
     (if \<not> onLine w \<or> (\<not> ignoreSlow \<and> isSlowConnection w) then False
      else case urlParse w (location w) u of
             None \<Rightarrow> False
           | Some targetUrl \<Rightarrow>
               origin (location w) = origin targetUrl \<and>
               (pathname (location w) \<noteq> pathname targetUrl \<or>
                search (location w) \<noteq> search targetUrl) \<and>
               u \<notin> prefetchedPages w)"

record prefetchOptions =
  withKind :: "string option"
  ignoreSlowConnection :: "bool option"

definition optIgnoreSlow :: "prefetchOptions option \<Rightarrow> bool" where
  "optIgnoreSlow options =
     (case options of
        None \<Rightarrow> False
      | Some opts \<Rightarrow> (case ignoreSlowConnection opts of None \<Rightarrow> False | Some b \<Rightarrow> b))"

definition optWith :: "prefetchOptions option \<Rightarrow> string" where
  "optWith options =
     (case options of
        None \<Rightarrow> ''link''
      | Some opts \<Rightarrow> (case withKind opts of None \<Rightarrow> ''link'' | Some k \<Rightarrow> k))"

definition prefetchPage :: "string \<Rightarrow> prefetchOptions option \<Rightarrow> world \<Rightarrow> exn option \<times> world" where
  "prefetchPage u options w =
     (if \<not> canPrefetch w u (optIgnoreSlow options) then (None, w)
      else
        let w1 = w\<lparr>prefetchedPages := insert u (prefetchedPages w)\<rparr> in
        if optWith options = ''link'' then
          (case createElement ''link'' w1 of
             (link, w2) \<Rightarrow>
               appendToHead
                 [withAttributes (\<lambda>a. setAttribute ''href'' u (setAttribute ''rel'' ''prefetch'' a)) link]
                 w2)
        else (None, emit (Fetch u None) w1))"

section \<open>DOM swap engine\<close>

text \<open>
  The event handed to the swap: the parsed destination document and the request it
  belongs to.
\<close>

record swapEvent =
  eventFrom :: url
  eventTo :: url
  eventDirection :: direction
  eventNavigationType :: navigationType
  newDocument :: "node list option"

definition persistAttr :: string where
  "persistAttr = ''data-mkdocs-persist''"

text \<open>
  The selectors the engine builds. \<^verbatim>\<open>[data-mkdocs-persist="id"]\<close> compares the attribute
  value with the identifier; \<^verbatim>\<open>link[rel=stylesheet]\<close> compares \<open>rel\<close> without regard to
  ASCII case, as selectors do for that attribute in HTML. Identifiers and addresses are
  taken to hold no quote or backslash, so that the selector text means what it says.
\<close>

definition asciiLower :: "char \<Rightarrow> char" where
  "asciiLower c =
     (let n = (of_char c :: nat) in if 65 \<le> n \<and> n \<le> 90 then char_of (n + 32) else c)"

definition matchesPersist :: "string \<Rightarrow> node \<Rightarrow> bool" where
  "matchesPersist pid e = (attrOf persistAttr e = Some pid)"

definition isStylesheetLink :: "node \<Rightarrow> bool" where
  "isStylesheetLink e =
     (hasTag ''link'' e \<and>
      (case attrOf ''rel'' e of Some r \<Rightarrow> map asciiLower r = ''stylesheet'' | None \<Rightarrow> False))"

text \<open>A template literal prints \<^verbatim>\<open>null\<close> for a missing attribute.\<close>

definition templateText :: "string option \<Rightarrow> string" where
  "templateText v = (case v of None \<Rightarrow> ''null'' | Some s \<Rightarrow> s)"

definition matchesStylesheet :: "string \<Rightarrow> node \<Rightarrow> bool" where
  "matchesStylesheet h e = (isStylesheetLink e \<and> attrOf ''href'' e = Some h)"

text \<open>
  findMatchingElement looks in the incoming head; reading \<^verbatim>\<open>querySelector\<close> of a
  missing head throws.
\<close>

definition findMatchingElement :: "node \<Rightarrow> node option \<Rightarrow> exn + node option" where
  "findMatchingElement child newHead =
     (case (case attrOf persistAttr child of None \<Rightarrow> [] | Some p \<Rightarrow> p) of
        c # cs \<Rightarrow>
          (case newHead of
             None \<Rightarrow> Inl TypeError
           | Some nh \<Rightarrow> Inr (find (matchesPersist (c # cs)) (descendants nh)))
      | [] \<Rightarrow>
          if isStylesheetLink child then
            (case newHead of
               None \<Rightarrow> Inl TypeError
             | Some nh \<Rightarrow>
                 Inr (find (matchesStylesheet (templateText (attrOf ''href'' child)))
                        (descendants nh)))
          else Inr None)"

text \<open>
  The loop over the children of the live head. It returns the child nodes the live head
  keeps and what is left of the incoming head; an exception leaves the loop with the
  children dropped so far.
\<close>

fun reconcileHead :: "node list \<Rightarrow> node option \<Rightarrow> exn option \<times> node list \<times> node option" where
  "reconcileHead [] newHead = (None, [], newHead)"
| "reconcileHead (Text s # cs) newHead =
     (case reconcileHead cs newHead of (x, kept, nh) \<Rightarrow> (x, Text s # kept, nh))"
| "reconcileHead (Element i t a ks # cs) newHead =
     (case findMatchingElement (Element i t a ks) newHead of
        Inl x \<Rightarrow> (Some x, Element i t a ks # cs, newHead)
      | Inr (Some newChild) \<Rightarrow>
          (case reconcileHead cs
                  (map_option (withChildren (removeNode (ident newChild))) newHead) of
             (x, kept, nh) \<Rightarrow> (x, Element i t a ks # kept, nh))
      | Inr None \<Rightarrow> reconcileHead cs newHead)"

definition mergeRootAttributes :: "attrs \<Rightarrow> attrs \<Rightarrow> attrs" where
  "mergeRootAttributes old new =
     foldl (\<lambda>a kv. setAttribute (fst kv) (snd kv) a) []
       (new @ filter (\<lambda>kv. prefix ''data-mkdocs-'' (fst kv)) old)"

fun updFirst :: "('a \<Rightarrow> bool) \<Rightarrow> ('a \<Rightarrow> 'a list) \<Rightarrow> 'a list \<Rightarrow> 'a list" where
  "updFirst P f [] = []"
| "updFirst P f (x # xs) = (if P x then f x @ xs else x # updFirst P f xs)"

definition isBody :: "node \<Rightarrow> bool" where
  "isBody n = (hasTag ''body'' n \<or> hasTag ''frameset'' n)"

definition isHtml :: "node \<Rightarrow> bool" where
  "isHtml n = (isElement n \<and> hasTag ''html'' n)"

definition updRoot :: "(node \<Rightarrow> node) \<Rightarrow> node list \<Rightarrow> node list" where
  "updRoot g d = updFirst isElement (\<lambda>e. [g e]) d"

text \<open>
  Focus. \<^verbatim>\<open>document.activeElement\<close> is the focused element, or the body when nothing
  has focus. An element that leaves the document loses focus; \<^verbatim>\<open>focus()\<close> gives focus to
  an element that is in the document (what rendering adds to that is outside the model).
\<close>

definition documentActiveElement :: "world \<Rightarrow> nat option" where
  "documentActiveElement w =
     (case activeElement w of
        Some i \<Rightarrow> Some i
      | None \<Rightarrow> map_option ident (bodyOf (document w)))"

definition dropLostFocus :: "world \<Rightarrow> world" where
  "dropLostFocus w =
     (case activeElement w of
        Some i \<Rightarrow> if i \<in> set (idents (document w)) then w else w\<lparr>activeElement := None\<rparr>
      | None \<Rightarrow> w)"

definition focus :: "nat \<Rightarrow> world \<Rightarrow> world" where
  "focus i w = (if i \<in> set (idents (document w)) then w\<lparr>activeElement := Some i\<rparr> else w)"

text \<open>The inclusive ancestors of an element, outermost first; empty when it is absent.\<close>

fun pathTo :: "nat \<Rightarrow> node \<Rightarrow> node list" where
  "pathTo i (Text s) = []"
| "pathTo i (Element j t a ks) =
     (if j = i then [Element j t a ks]
      else case concat (map (pathTo i) ks) of
             [] \<Rightarrow> []
           | p # ps \<Rightarrow> Element j t a ks # p # ps)"

definition closestPersist :: "nat \<Rightarrow> node list \<Rightarrow> bool" where
  "closestPersist i d =
     (\<exists>e \<in> set (concat (map (pathTo i) d)). attrOf persistAttr e \<noteq> None)"

definition isTextControlElement :: "node \<Rightarrow> bool" where
  "isTextControlElement e = (hasTag ''input'' e \<or> hasTag ''textarea'' e)"

record preservedFocus =
  focusElement :: "nat option"
  focusStart :: "nat option"
  focusEnd :: "nat option"

definition preserveActiveElement :: "world \<Rightarrow> preservedFocus" where
  "preserveActiveElement w =
     (case documentActiveElement w of
        None \<Rightarrow> \<lparr>focusElement = None, focusStart = None, focusEnd = None\<rparr>
      | Some i \<Rightarrow>
          if closestPersist i (document w) then
            (case lookupNode i (document w) of
               Some e \<Rightarrow>
                 if isTextControlElement e then
                   \<lparr>focusElement = Some i,
                    focusStart = map_option selectionStart (textControls w i),
                    focusEnd = map_option selectionEnd (textControls w i)\<rparr>
                 else \<lparr>focusElement = Some i, focusStart = None, focusEnd = None\<rparr>
             | None \<Rightarrow> \<lparr>focusElement = Some i, focusStart = None, focusEnd = None\<rparr>)
          else \<lparr>focusElement = None, focusStart = None, focusEnd = None\<rparr>)"

text \<open>
  The setters of \<^verbatim>\<open>selectionStart\<close> and \<^verbatim>\<open>selectionEnd\<close>: both set the selection range,
  which clamps the offsets to the length of the value and keeps start at or before end. A
  missing offset counts as 0. On an input element that has no selection (a checkbox) the
  setter throws.
\<close>

definition setSelectionRange :: "nat \<Rightarrow> nat \<Rightarrow> textControl \<Rightarrow> textControl" where
  "setSelectionRange s e c =
     (let n = length (controlValue c); e' = min e n; s' = min s n
      in c\<lparr>selectionStart := (if e' < s' then e' else s'), selectionEnd := e'\<rparr>)"

definition setSelectionStart :: "nat \<Rightarrow> textControl \<Rightarrow> textControl" where
  "setSelectionStart s c = setSelectionRange s (if selectionEnd c < s then s else selectionEnd c) c"

definition setSelectionEnd :: "nat \<Rightarrow> textControl \<Rightarrow> textControl" where
  "setSelectionEnd e c = setSelectionRange (selectionStart c) e c"

definition offsetOf :: "nat option \<Rightarrow> nat" where
  "offsetOf v = (case v of None \<Rightarrow> 0 | Some n \<Rightarrow> n)"

definition restoreActiveElement :: "preservedFocus \<Rightarrow> world \<Rightarrow> exn option \<times> world" where
  "restoreActiveElement p w =
     (case focusElement p of
        None \<Rightarrow> (None, w)
      | Some i \<Rightarrow>
          let w1 = focus i w in
          (case lookupNode i (document w1 @ detached w1) of
             Some e \<Rightarrow>
               if isTextControlElement e then
                 (case textControls w1 i of
                    None \<Rightarrow> (Some InvalidStateError, w1)
                  | Some c \<Rightarrow>
                      (None, w1\<lparr>textControls := (textControls w1)
                         (i := Some (setSelectionEnd (offsetOf (focusEnd p))
                                       (setSelectionStart (offsetOf (focusStart p)) c)))\<rparr>))
               else (None, w1)
           | None \<Rightarrow> (None, w1)))"

text \<open>
  \<^verbatim>\<open>target.replaceWith(moved)\<close> for a target in the document. Replacing an element with
  itself changes nothing; an element cannot take the place of one of its own
  descendants; otherwise the moved element leaves the tree it is in and takes the place
  of the target, which becomes a detached tree.
\<close>

definition replaceWith :: "nat \<Rightarrow> nat \<Rightarrow> world \<Rightarrow> exn option \<times> world" where
  "replaceWith target moved w =
     (if target = moved then (None, w)
      else case lookupNode moved (document w @ detached w) of
             None \<Rightarrow> (None, w)
           | Some m \<Rightarrow>
               if target \<in> ident ` set (descendants m) then (Some HierarchyRequestError, w)
               else
                 let doc1 = removeNode moved (document w);
                     det1 = removeNode moved (detached w)
                 in (None, dropLostFocus
                      (w\<lparr>document := substForest target (\<lambda>e. [m]) doc1,
                         detached := det1 @ (case lookupNode target doc1 of
                                               None \<Rightarrow> [] | Some t \<Rightarrow> [t])\<rparr>)))"

text \<open>The loop that puts the persistent elements of the old body back.\<close>

fun restorePersistent :: "node list \<Rightarrow> world \<Rightarrow> exn option \<times> world" where
  "restorePersistent [] w = (None, w)"
| "restorePersistent (preserved # rest) w =
     (case find (matchesPersist (templateText (attrOf persistAttr preserved)))
             (forestElements (document w)) of
        None \<Rightarrow> restorePersistent rest w
      | Some newElement \<Rightarrow>
          (case replaceWith (ident newElement) (ident preserved) w of
             (Some x, w1) \<Rightarrow> (Some x, w1)
           | (None, w1) \<Rightarrow> restorePersistent rest w1))"

text \<open>
  swapDocument. The argument is \<open>None\<close> when the function is called without one: reading
  \<^verbatim>\<open>event.newDocument\<close> of \<^verbatim>\<open>undefined\<close> throws before anything is changed. Reading a
  property of a missing root, head or body throws as well, with the changes made so far
  left in place. \<^verbatim>\<open>replaceWith(null)\<close> inserts the text \<^verbatim>\<open>null\<close>.
\<close>

definition swapHead :: "node list \<Rightarrow> world \<Rightarrow> exn option \<times> world" where
  "swapHead newDoc w =
     (case headOf (document w) of
        None \<Rightarrow> (Some TypeError, w)
      | Some h \<Rightarrow>
          (case reconcileHead (childNodes h) (headOf newDoc) of
             (Some x, kept, nh) \<Rightarrow>
               (Some x, w\<lparr>document := updRoot (withChildren
                    (updFirst (hasTag ''head'') (\<lambda>e. [withChildren (\<lambda>ks. kept) e])))
                    (document w)\<rparr>)
           | (None, kept, None) \<Rightarrow>
               (Some TypeError, w\<lparr>document := updRoot (withChildren
                    (updFirst (hasTag ''head'') (\<lambda>e. [withChildren (\<lambda>ks. kept) e])))
                    (document w)\<rparr>)
           | (None, kept, Some nh) \<Rightarrow>
               (None, w\<lparr>document := updRoot (withChildren
                    (updFirst (hasTag ''head'')
                       (\<lambda>e. [withChildren (\<lambda>ks. kept @ filter isElement (childNodes nh)) e])))
                    (document w)\<rparr>)))"

definition swapBody :: "node list \<Rightarrow> world \<Rightarrow> exn option \<times> world" where
  "swapBody newDoc w =
     (let saved = preserveActiveElement w in
      case bodyOf (document w) of
        None \<Rightarrow> (Some TypeError, w)
      | Some oldBody \<Rightarrow>
          (case restorePersistent
                  (filter (\<lambda>e. attrOf persistAttr e \<noteq> None) (descendants oldBody))
                  (dropLostFocus
                     (w\<lparr>document := updRoot (withChildren
                            (updFirst isBody
                               (\<lambda>e. [case bodyOf newDoc of None \<Rightarrow> Text ''null'' | Some b \<Rightarrow> b])))
                            (document w),
                        detached := detached w @ [oldBody]\<rparr>)) of
             (Some x, w1) \<Rightarrow> (Some x, w1)
           | (None, w1) \<Rightarrow> restoreActiveElement saved w1))"

definition swapDocument :: "swapEvent option \<Rightarrow> world \<Rightarrow> exn option \<times> world" where
  "swapDocument event w =
     (case event of
        None \<Rightarrow> (Some TypeError, w)
      | Some ev \<Rightarrow>
          (case documentElement (document w) of
             None \<Rightarrow> (Some TypeError, w)
           | Some root \<Rightarrow>
               (case (case newDocument ev of
                        None \<Rightarrow> None
                      | Some newDoc \<Rightarrow> map_option (Pair newDoc) (documentElement newDoc)) of
                  None \<Rightarrow>
                    (Some TypeError,
                     w\<lparr>document := updRoot (withAttributes (\<lambda>a. [])) (document w)\<rparr>)
                | Some (newDoc, newRoot) \<Rightarrow>
                    (case swapHead newDoc
                            (w\<lparr>document := updRoot (withAttributes
                                   (\<lambda>a. mergeRootAttributes a (attributes newRoot)))
                                   (document w)\<rparr>) of
                       (Some x, w1) \<Rightarrow> (Some x, w1)
                     | (None, w1) \<Rightarrow> swapBody newDoc w1))))"

section \<open>Script re-execution\<close>

definition execMarker :: string where
  "execMarker = ''data-mkdocs-exec''"

definition scriptsOf :: "node list \<Rightarrow> node list" where
  "scriptsOf d = filter (hasTag ''script'') (forestElements d)"

text \<open>
  The content of a script element is character data (the HTML parser puts nothing else
  there); \<^verbatim>\<open>innerHTML\<close> reads it as one string and writes it as one text node.
\<close>

fun textOf :: "node \<Rightarrow> string" where
  "textOf (Text s) = s"
| "textOf (Element i t a ks) = []"

definition scriptContent :: "node list \<Rightarrow> node list" where
  "scriptContent ks = (case concat (map textOf ks) of [] \<Rightarrow> [] | c # cs \<Rightarrow> [Text (c # cs)])"

definition copyAttributes :: "attrs \<Rightarrow> attrs" where
  "copyAttributes as = foldl (\<lambda>a kv. setAttribute (fst kv) (snd kv) a) [] as"

text \<open>
  One turn of the loop for a script that is not skipped: the new element gets the
  content and the attributes of the old one and the marker, and takes its place. The
  browser runs a script element when it is inserted into the document; a \<open>src\<close>
  attribute adds its load to the promise the function returns.
\<close>

definition recreateScript :: "node \<Rightarrow> world \<Rightarrow> world" where
  "recreateScript script w =
     (case createElement ''script'' w of
        (fresh, w1) \<Rightarrow>
          let newScript =
                Element (ident fresh) ''script''
                  (setAttribute execMarker [] (copyAttributes (attributes script)))
                  (scriptContent (childNodes script));
              w2 = (if getAttribute (attributes script) ''src'' \<noteq> None
                    then emit (AwaitLoad (ident fresh)) w1 else w1)
          in if ident script \<in> set (idents (document w2)) then
               emit (RunScript (ident fresh))
                 (dropLostFocus
                    (w2\<lparr>document := substForest (ident script) (\<lambda>e. [newScript]) (document w2),
                        detached := detached w2 @ [script]\<rparr>))
             else w2)"

definition skipsForType :: "node \<Rightarrow> bool" where
  "skipsForType script =
     (case attrOf ''type'' script of
        None \<Rightarrow> False
      | Some t \<Rightarrow> t \<noteq> [] \<and> t \<noteq> ''module'' \<and> t \<noteq> ''text/javascript'')"

definition executeScript :: "node \<Rightarrow> world \<Rightarrow> world" where
  "executeScript script w =
     (if attrOf execMarker script = Some [] then w
      else if skipsForType script then w
      else recreateScript script w)"

definition executeScripts :: "world \<Rightarrow> world" where
  "executeScripts w = fold executeScript (scriptsOf (document w)) w"

section \<open>History bridge\<close>

text \<open>
  \<^verbatim>\<open>history.pushState\<close> and \<^verbatim>\<open>history.replaceState\<close>, as bound at module start. A URL of
  another origin is refused by the browser. \<^verbatim>\<open>replaceState\<close> without a URL keeps the
  address.
\<close>

definition originalPushState :: "hstate \<Rightarrow> url \<Rightarrow> world \<Rightarrow> exn option \<times> world" where
  "originalPushState st u w =
     (if origin u \<noteq> origin (location w) then (Some SecurityError, w)
      else (None, emit (PushState st (href u)) (w\<lparr>historyState := Some st, location := u\<rparr>)))"

definition originalReplaceState :: "hstate option \<Rightarrow> url option \<Rightarrow> world \<Rightarrow> exn option \<times> world" where
  "originalReplaceState st target w =
     (case target of
        None \<Rightarrow> (None, emit (ReplaceState st None) (w\<lparr>historyState := st\<rparr>))
      | Some u \<Rightarrow>
          if origin u \<noteq> origin (location w) then (Some SecurityError, w)
          else (None, emit (ReplaceState st (Some (href u)))
                        (w\<lparr>historyState := st, location := u\<rparr>)))"

definition updateHistoryState :: "int \<Rightarrow> int \<Rightarrow> world \<Rightarrow> world" where
  "updateHistoryState x y w =
     (case historyState w of
        None \<Rightarrow> w
      | Some st \<Rightarrow>
          snd (originalReplaceState (Some (st\<lparr>scrollX := x, scrollY := y\<rparr>)) None
                 (w\<lparr>scrollRestoration := ''manual''\<rparr>)))"

text \<open>
  \<^verbatim>\<open>location.href = u\<close>. To an address that differs from the current one at most in its
  fragment, and has a fragment, the browser navigates inside the document: it scrolls to
  the fragment and the current entry has no state afterwards. Any other address leaves
  the page.
\<close>

definition assignHref :: "url \<Rightarrow> world \<Rightarrow> world" where
  "assignHref u w =
     (if origin u = origin (location w) \<and> pathname u = pathname (location w)
         \<and> search u = search (location w) \<and> hash u \<noteq> []
      then emit (FragmentNavigation (href u)) (w\<lparr>location := u, historyState := None\<rparr>)
      else emit (AssignHref (href u)) w)"

section \<open>Document fetcher\<close>

record navOptions =
  optHistory :: "string option"
  optFormData :: "string option"
  optState :: "attrs option"

record fetched =
  fetchedHtml :: string
  fetchedRedirected :: "string option"
  fetchedMediaType :: string

text \<open>\<^verbatim>\<open>trim()\<close> on a header value, whose code units are bytes.\<close>

definition isJsSpace :: "char \<Rightarrow> bool" where
  "isJsSpace c = ((of_char c :: nat) \<in> {9, 10, 11, 12, 13, 32, 160})"

definition jsTrim :: "string \<Rightarrow> string" where
  "jsTrim s = rev (dropWhile isJsSpace (rev (dropWhile isJsSpace s)))"

definition mediaTypeOf :: "string option \<Rightarrow> string" where
  "mediaTypeOf header =
     jsTrim (takeWhile (\<lambda>c. c \<noteq> CHR '';'') (case header of None \<Rightarrow> [] | Some h \<Rightarrow> h))"

definition fetchPage :: "string \<Rightarrow> navOptions \<Rightarrow> world \<Rightarrow> fetched option \<times> world" where
  "fetchPage u options w =
     (let w1 = emit (Fetch u (optFormData options)) w in
      case network w u (optFormData options) of
        None \<Rightarrow> (None, w1)
      | Some r \<Rightarrow>
          let contentType = mediaTypeOf (contentTypeHeader r) in
          if contentType \<noteq> ''text/html'' \<and> contentType \<noteq> ''application/xhtml+xml''
          then (None, w1)
          else (case bodyText r of
                  None \<Rightarrow> (None, w1)
                | Some html \<Rightarrow>
                    (Some \<lparr>fetchedHtml = html,
                           fetchedRedirected = (if redirected r then Some (responseUrl r) else None),
                           fetchedMediaType = contentType\<rparr>, w1)))"

section \<open>Transition controller\<close>

definition matchesName :: "string \<Rightarrow> node \<Rightarrow> bool" where
  "matchesName n e = (attrOf ''name'' e = Some n)"

definition enabledMarker :: string where
  "enabledMarker = ''mkdocs-view-transitions-enabled''"

definition isViewTransitionsEnabled :: "world \<Rightarrow> bool" where
  "isViewTransitionsEnabled w =
     (find (matchesName enabledMarker) (forestElements (document w)) \<noteq> None)"

record prepEvent =
  prepFrom :: url
  prepTo :: url
  prepDirection :: direction
  prepNavigationType :: navigationType
  prepNewDocument :: "node list option"
  defaultPrevented :: bool

text \<open>
  \<^verbatim>\<open>DOMParser.parseFromString\<close>: the parser's tree, as new objects.
\<close>

fun relabel :: "nat \<Rightarrow> node \<Rightarrow> node" where
  "relabel k (Text s) = Text s"
| "relabel k (Element i t a ks) = Element (i + k) t a (map (relabel k) ks)"

definition parseFromString :: "string \<Rightarrow> string \<Rightarrow> world \<Rightarrow> node list \<times> world" where
  "parseFromString html mediaType w =
     (let raw = domParser w html mediaType
      in (map (relabel (nextId w)) raw,
          w\<lparr>nextId := nextId w + Suc (fold max (idents raw) 0)\<rparr>))"

fun dropNoscript :: "node \<Rightarrow> node list" where
  "dropNoscript (Text s) = [Text s]"
| "dropNoscript (Element i t a ks) =
     (if t = ''noscript'' then [] else [Element i t a (concat (map dropNoscript ks))])"

text \<open>\<^verbatim>\<open>querySelectorAll("head link[rel=stylesheet]")\<close>: the stylesheet links below a head.\<close>

fun linksUnderHead :: "bool \<Rightarrow> node \<Rightarrow> node list" where
  "linksUnderHead inside (Text s) = []"
| "linksUnderHead inside (Element i t a ks) =
     (if inside \<and> isStylesheetLink (Element i t a ks) then [Element i t a ks] else [])
     @ concat (map (linksUnderHead (inside \<or> t = ''head'')) ks)"

text \<open>
  preloadStylesheets. An exception of \<^verbatim>\<open>document.head.append\<close> is raised inside a
  promise executor: the loop goes on, and the wait for all promises fails afterwards.
\<close>

fun preloadLinks :: "node list \<Rightarrow> world \<Rightarrow> exn option \<times> world" where
  "preloadLinks [] w = (None, w)"
| "preloadLinks (link # rest) w =
     (let h = templateText (attrOf ''href'' link) in
      if find (matchesStylesheet h) (forestElements (document w)) = None then
        (case createElement ''link'' w of
           (fresh, w1) \<Rightarrow>
             (case appendToHead
                     [withAttributes
                        (\<lambda>a. setAttribute ''href'' h
                               (setAttribute ''as'' ''style'' (setAttribute ''rel'' ''preload'' a)))
                        fresh] w1 of
                (Some x, w2) \<Rightarrow> (Some x, snd (preloadLinks rest w2))
              | (None, w2) \<Rightarrow> preloadLinks rest (emit (AwaitLoad (ident fresh)) w2)))
      else preloadLinks rest w)"

definition preloadStylesheets :: "node list \<Rightarrow> world \<Rightarrow> exn option \<times> world" where
  "preloadStylesheets newDoc w = preloadLinks (concat (map (linksUnderHead False) newDoc)) w"

text \<open>
  The loader attached to the before-preparation event. \<^verbatim>\<open>options.formData\<close> is an
  object when it is present, so it is truthy.
\<close>

definition loader :: "navOptions \<Rightarrow> prepEvent \<Rightarrow> world \<Rightarrow> exn option \<times> prepEvent \<times> world" where
  "loader options ev w =
     (case fetchPage (href (prepTo ev)) options w of
        (None, w1) \<Rightarrow> (None, ev\<lparr>defaultPrevented := True\<rparr>, w1)
      | (Some response, w1) \<Rightarrow>
          (case (case fetchedRedirected response of
                   None \<Rightarrow> Inr ev
                 | Some [] \<Rightarrow> Inr ev
                 | Some (c # cs) \<Rightarrow>
                     (case urlParse w1 (location w1) (c # cs) of
                        None \<Rightarrow> Inl TypeError
                      | Some u \<Rightarrow> Inr (ev\<lparr>prepTo := u\<rparr>))) of
             Inl x \<Rightarrow> (Some x, ev, w1)
           | Inr ev1 \<Rightarrow>
               (case parseFromString (fetchedHtml response) (fetchedMediaType response) w1 of
                  (parsed, w2) \<Rightarrow>
                    let newDoc = concat (map dropNoscript parsed);
                        ev2 = ev1\<lparr>prepNewDocument := Some newDoc\<rparr>
                    in if find (matchesName enabledMarker) (forestElements newDoc) = None
                          \<and> optFormData options = None
                       then (None, ev2\<lparr>defaultPrevented := True\<rparr>, w2)
                       else (case preloadStylesheets newDoc w2 of (x, w3) \<Rightarrow> (x, ev2, w3)))))"

definition dispatchBeforePreparation ::
  "url \<Rightarrow> url \<Rightarrow> direction \<Rightarrow> navigationType \<Rightarrow> navOptions \<Rightarrow> world
   \<Rightarrow> exn option \<times> prepEvent \<times> world" where
  "dispatchBeforePreparation from to direction navType options w =
     (let ev = \<lparr>prepFrom = from, prepTo = to, prepDirection = direction,
                prepNavigationType = navType, prepNewDocument = None,
                defaultPrevented = listenersCancel w\<rparr>;
          w1 = emit (Dispatch ''mkdocs:before-preparation'') w
      in if listenersCancel w then (None, ev, w1)
         else case loader options ev w1 of
                (Some x, ev1, w2) \<Rightarrow> (Some x, ev1, w2)
              | (None, ev1, w2) \<Rightarrow>
                  if defaultPrevented ev1 then (None, ev1, w2)
                  else
                    let w3 = emit (Dispatch ''mkdocs:after-preparation'') w2
                    in (None, ev1,
                        if prepNavigationType ev1 \<noteq> Traverse
                        then updateHistoryState (windowScrollX w3) (windowScrollY w3) w3
                        else w3))"

text \<open>
  updateLocation. The title is written and written back around the history call and is
  left out. After the early return for a same-page address, \<open>scrolled\<close> is always true
  and \<open>isSameUrl\<close> always false, so the two branches of the source that test them never run.
\<close>

definition callerKeys :: "navOptions \<Rightarrow> attrs" where
  "callerKeys options = (case optState options of None \<Rightarrow> [] | Some s \<Rightarrow> s)"

definition updateLocation ::
  "url \<Rightarrow> url \<Rightarrow> navOptions \<Rightarrow> hstate option \<Rightarrow> world \<Rightarrow> exn option \<times> world" where
  "updateLocation to from options scrollState w =
     (let isSameUrl = (pathname from = pathname to \<and> search from = search to) in
      case (if href to \<noteq> href (location w) \<and> scrollState = None then
              (if optHistory options = Some ''replace'' then
                 (case historyState w of
                    None \<Rightarrow> (Some TypeError, w)
                  | Some state \<Rightarrow>
                      originalReplaceState
                        (Some \<lparr>index = index state, scrollX = scrollX state,
                               scrollY = scrollY state, callerState = callerKeys options\<rparr>)
                        (Some to) w)
               else
                 originalPushState
                   \<lparr>index = navigationIndex w + 1, scrollX = 0, scrollY = 0,
                    callerState = callerKeys options\<rparr>
                   to (w\<lparr>navigationIndex := navigationIndex w + 1\<rparr>))
            else (None, w)) of
        (Some x, w1) \<Rightarrow> (Some x, w1)
      | (None, w1) \<Rightarrow>
          let w2 = w1\<lparr>currentLocation := to\<rparr> in
          if isSameUrl then (None, w2)
          else
            let w3 = emit (ScrollTo 0 0) w2 in
            (case scrollState of
               Some s \<Rightarrow>
                 (None, (emit (ScrollTo (scrollX s) (scrollY s)) w3)\<lparr>scrollRestoration := ''manual''\<rparr>)
             | None \<Rightarrow>
                 if hash to \<noteq> [] then
                   let state = historyState w3;
                       w4 = assignHref to (w3\<lparr>scrollRestoration := ''auto''\<rparr>)
                   in (case historyState w4 of
                         None \<Rightarrow>
                           (case originalReplaceState state None w4 of
                              (x, w5) \<Rightarrow> (x, w5\<lparr>scrollRestoration := ''manual''\<rparr>))
                       | Some s \<Rightarrow> (None, w4\<lparr>scrollRestoration := ''manual''\<rparr>))
                 else (None, w3\<lparr>scrollRestoration := ''manual''\<rparr>)))"

definition setRootAttribute :: "string \<Rightarrow> string \<Rightarrow> world \<Rightarrow> exn option \<times> world" where
  "setRootAttribute n v w =
     (case documentElement (document w) of
        None \<Rightarrow> (Some TypeError, w)
      | Some root \<Rightarrow>
          (None, w\<lparr>document := updRoot (withAttributes (setAttribute n v)) (document w)\<rparr>))"

definition removeRootAttribute :: "string \<Rightarrow> world \<Rightarrow> exn option \<times> world" where
  "removeRootAttribute n w =
     (case documentElement (document w) of
        None \<Rightarrow> (Some TypeError, w)
      | Some root \<Rightarrow>
          (None, w\<lparr>document := updRoot (withAttributes (removeAttribute n)) (document w)\<rparr>))"

definition animateTransition :: "string \<Rightarrow> world \<Rightarrow> exn option \<times> world" where
  "animateTransition phase w =
     (case setRootAttribute ''data-mkdocs-transition-fallback'' phase w of
        (Some x, w1) \<Rightarrow> (Some x, w1)
      | (None, w1) \<Rightarrow> (None, emit (Animate phase) w1))"

definition getFallbackAnimation :: "world \<Rightarrow> string option" where
  "getFallbackAnimation w =
     (case find (matchesName ''mkdocs-view-transitions-fallback'') (forestElements (document w)) of
        None \<Rightarrow> Some ''animate''
      | Some meta \<Rightarrow> attrOf ''content'' meta)"

definition directionText :: "direction \<Rightarrow> string" where
  "directionText d = (case d of Forward \<Rightarrow> ''forward'' | Back \<Rightarrow> ''back'')"

text \<open>
  dispatchBeforeSwap. \<^verbatim>\<open>swapFn.bind(event)\<close> fixes \<^verbatim>\<open>this\<close> and no argument, and
  \<^verbatim>\<open>event.swap()\<close> passes none: swapDocument runs with its parameter undefined.
\<close>

definition dispatchBeforeSwap :: "prepEvent \<Rightarrow> world \<Rightarrow> exn option \<times> swapEvent \<times> world" where
  "dispatchBeforeSwap ev w =
     (let sev = \<lparr>eventFrom = prepFrom ev, eventTo = prepTo ev,
                 eventDirection = prepDirection ev,
                 eventNavigationType = prepNavigationType ev,
                 newDocument = prepNewDocument ev\<rparr>
      in case swapDocument None (emit (Dispatch ''mkdocs:before-swap'') w) of
           (x, w1) \<Rightarrow> (x, sev, w1))"

definition performPageSwap ::
  "prepEvent \<Rightarrow> navOptions \<Rightarrow> hstate option \<Rightarrow> string option \<Rightarrow> world \<Rightarrow> exn option \<times> world" where
  "performPageSwap ev options scrollState fallback w =
     (if skipTransition w then (Some SkippedTransition, w)
      else case setRootAttribute ''data-mkdocs-transition'' (directionText (prepDirection ev)) w of
        (Some x, w1) \<Rightarrow> (Some x, w1)
      | (None, w1) \<Rightarrow>
          (case (if fallback = Some ''animate'' then animateTransition ''old'' w1 else (None, w1)) of
             (Some x, w2) \<Rightarrow> (Some x, w2)
           | (None, w2) \<Rightarrow>
               (case dispatchBeforeSwap ev w2 of
                  (Some x, sev, w3) \<Rightarrow> (Some x, w3)
                | (None, sev, w3) \<Rightarrow>
                    (case updateLocation (eventTo sev) (eventFrom sev) options scrollState w3 of
                       (Some x, w4) \<Rightarrow> (Some x, w4)
                     | (None, w4) \<Rightarrow>
                         let w5 = emit (Dispatch ''mkdocs:after-swap'') w4
                         in if fallback = Some ''animate'' \<and> \<not> skipTransition w5
                            then (None, snd (animateTransition ''new'' w5))
                            else (None, w5)))))"

definition createRouteAnnouncer :: "world \<Rightarrow> world" where
  "createRouteAnnouncer w =
     (case createElement ''div'' w of
        (fresh, w1) \<Rightarrow>
          (case bodyOf (document w1) of
             None \<Rightarrow> w1
           | Some b \<Rightarrow>
               emit (Timer 60)
                 (w1\<lparr>document := substForest (ident b)
                       (\<lambda>e. [withChildren
                                (\<lambda>ks. ks @ [withAttributes
                                    (\<lambda>a. setAttribute ''class'' ''route-announcer''
                                           (setAttribute ''aria-atomic'' ''true''
                                              (setAttribute ''aria-live'' ''assertive'' a))) fresh]) e])
                       (document w1)\<rparr>)))"

text \<open>
  navigateToPage, with the waits of the source taken in their order. The swap runs in
  the update callback of the native transition, or after one tick with the fallback
  animation. When it fails the transition's promises are rejected and neither the
  follow-up of \<open>ready\<close> (scripts, page-load, announcer) nor the cleanup of \<open>finished\<close> runs.
  With the fallback, \<open>finished\<close> is settled only by the end of the \<^verbatim>\<open>animate\<close> phase.
\<close>

definition navigateToPage ::
  "direction \<Rightarrow> url \<Rightarrow> url \<Rightarrow> navOptions \<Rightarrow> hstate option \<Rightarrow> world \<Rightarrow> exn option \<times> world" where
  "navigateToPage direction fromUrl toUrl options scrollState w =
     (if \<not> isViewTransitionsEnabled w \<or> origin (location w) \<noteq> origin toUrl
      then (None, assignHref toUrl w)
      else
        let navType = (case scrollState of
                         Some s \<Rightarrow> Traverse
                       | None \<Rightarrow> if optHistory options = Some ''replace'' then Replace else Push);
            w1 = (if navType \<noteq> Traverse
                  then updateHistoryState (windowScrollX w) (windowScrollY w) w else w)
        in if pathname fromUrl = pathname toUrl \<and> search fromUrl = search toUrl
              \<and> ((direction \<noteq> Back \<and> hash toUrl \<noteq> []) \<or> (direction = Back \<and> hash fromUrl \<noteq> []))
           then updateLocation toUrl fromUrl options scrollState w1
           else
             (case dispatchBeforePreparation fromUrl toUrl direction navType options w1 of
                (Some x, ev, w2) \<Rightarrow> (Some x, w2)
              | (None, ev, w2) \<Rightarrow>
                  if defaultPrevented ev then (None, assignHref toUrl w2)
                  else
                    let w3 = w2\<lparr>skipTransition := False\<rparr>;
                        fallback = (if supportsViewTransitions w3 then None
                                    else getFallbackAnimation w3)
                    in (case performPageSwap ev options scrollState fallback
                               (emit (if supportsViewTransitions w3 then StartViewTransition
                                      else Timer 0) w3) of
                          (Some x, w4) \<Rightarrow> (Some x, w4)
                        | (None, w4) \<Rightarrow>
                            let w5 = createRouteAnnouncer
                                       (emit (Dispatch ''mkdocs:page-load'') (executeScripts w4))
                            in if supportsViewTransitions w5 \<or> fallback = Some ''animate''
                               then (None,
                                     snd (removeRootAttribute ''data-mkdocs-transition-fallback''
                                       (snd (removeRootAttribute ''data-mkdocs-transition'' w5))))
                               else (None, w5))))"

definition navigate :: "string \<Rightarrow> navOptions \<Rightarrow> world \<Rightarrow> exn option \<times> world" where
  "navigate u options w =
     (case urlParse w (location w) u of
        None \<Rightarrow> (Some TypeError, w)
      | Some toUrl \<Rightarrow> navigateToPage Forward (currentLocation w) toUrl options None w)"

definition noOptions :: navOptions where
  "noOptions = \<lparr>optHistory = None, optFormData = None, optState = None\<rparr>"

text \<open>
  The popstate handler. Its argument is \<^verbatim>\<open>event.state\<close>; the index is read from
  \<^verbatim>\<open>history.state\<close>, and reading it from \<^verbatim>\<open>null\<close> throws. The browser has moved
  \<open>location\<close> and \<open>historyState\<close> to the entry before the event is fired.
\<close>

definition handlePopState :: "hstate option \<Rightarrow> world \<Rightarrow> exn option \<times> world" where
  "handlePopState eventState w =
     (if \<not> isViewTransitionsEnabled w \<and> eventState \<noteq> None then (None, emit Reload w)
      else if eventState = None then (None, w)
      else case historyState w of
             None \<Rightarrow> (Some TypeError, w)
           | Some state \<Rightarrow>
               navigateToPage (if index state > navigationIndex w then Forward else Back)
                 (currentLocation w) (location w) noOptions (Some state)
                 (w\<lparr>navigationIndex := index state\<rparr>))"

section \<open>Observations on a run\<close>

text \<open>
  The calls of \<^verbatim>\<open>pushState\<close> and \<^verbatim>\<open>replaceState\<close> a page has made, the requests it has
  sent, and the state of the page when navigateToPage reaches the same-page test: a
  navigation that is not a traversal has stored the scroll position by then.
\<close>

definition isHistoryWrite :: "effect \<Rightarrow> bool" where
  "isHistoryWrite e = (case e of PushState st u \<Rightarrow> True | ReplaceState st u \<Rightarrow> True | _ \<Rightarrow> False)"

definition historyWrites :: "world \<Rightarrow> effect list" where
  "historyWrites w = filter isHistoryWrite (trace w)"

definition isFetch :: "effect \<Rightarrow> bool" where
  "isFetch e = (case e of Fetch u body \<Rightarrow> True | _ \<Rightarrow> False)"

definition fetches :: "world \<Rightarrow> effect list" where
  "fetches w = filter isFetch (trace w)"

definition scrollSnapshot :: "hstate option \<Rightarrow> world \<Rightarrow> world" where
  "scrollSnapshot scrollState w =
     (if scrollState = None then updateHistoryState (windowScrollX w) (windowScrollY w) w else w)"

definition snapshotWrites :: "hstate option \<Rightarrow> world \<Rightarrow> effect list" where
  "snapshotWrites scrollState w =
     (case scrollState of
        Some s \<Rightarrow> []
      | None \<Rightarrow>
          (case historyState w of
             None \<Rightarrow> []
           | Some st \<Rightarrow>
               [ReplaceState (Some (st\<lparr>scrollX := windowScrollX w, scrollY := windowScrollY w\<rparr>))
                  None]))"

definition navigationTypeOf :: "navOptions \<Rightarrow> hstate option \<Rightarrow> navigationType" where
  "navigationTypeOf options scrollState =
     (case scrollState of
        Some s \<Rightarrow> Traverse
      | None \<Rightarrow> if optHistory options = Some ''replace'' then Replace else Push)"

text \<open>\<open>quiet w w'\<close>: from \<open>w\<close> to \<open>w'\<close> no history call was made and the index was kept.\<close>

definition quiet :: "world \<Rightarrow> world \<Rightarrow> bool" where
  "quiet w w' = (historyWrites w' = historyWrites w \<and> navigationIndex w' = navigationIndex w)"

text \<open>A script the loop passes over: it carries the marker, or its type is not JavaScript.\<close>

definition isSkipped :: "node \<Rightarrow> bool" where
  "isSkipped script = (attrOf execMarker script = Some [] \<or> skipsForType script)"

section \<open>Identities in a tree\<close>

text \<open>
  The identities of the elements of a forest, with their multiplicities. An object is in
  one place at a time: its identity occurs once among the trees of a page.
\<close>

definition nodeBag :: "node \<Rightarrow> nat multiset" where
  "nodeBag n = mset (map ident (elements n))"

definition identBag :: "node list \<Rightarrow> nat multiset" where
  "identBag ns = mset (idents ns)"

section \<open>Search-term helper: escapeRegExp\<close>

text \<open>
  \<^verbatim>\<open>string.replace(/[.*+?^${}()|[\]\\]/g, '\\        // Ad')\<close>.
  The character class lists fourteen characters. The replacement string holds no dollar
  sign, so \<^verbatim>\<open>replace\<close> inserts it literally: a backslash, eight spaces and the
  text \<^verbatim>\<open>// Ad\<close>. A JavaScript string is a sequence of code units; the model is a
  \<^typ>\<open>char list\<close>.
\<close>

definition regexMetachars :: "char list" where
  "regexMetachars =
     [CHR ''.'', CHR ''*'', CHR ''+'', CHR ''?'', CHR ''^'', CHR ''$'', CHR ''{'', CHR ''}'',
      CHR ''('', CHR '')'', CHR ''|'', CHR ''['', CHR '']'', CHR 0x5C]"

definition escapeReplacement :: string where
  "escapeReplacement = CHR 0x5C # ''        // Ad''"

definition escapeRegExp :: "string \<Rightarrow> string" where
  "escapeRegExp s =
     concat (map (\<lambda>c. if c \<in> set regexMetachars then escapeReplacement else [c]) s)"

text \<open>
  The contract of the specification, in its own words: every metacharacter is replaced by a
  backslash followed by that same character, every other character is kept.
\<close>

definition escapeRegExp_spec :: "string \<Rightarrow> string" where
  "escapeRegExp_spec s =
     concat (map (\<lambda>c. if c \<in> set regexMetachars then [CHR 0x5C, c] else [c]) s)"

section \<open>A concrete page\<close>

text \<open>
  A page of a wiki at \<^verbatim>\<open>https://wiki.example/docs/page?a=1#intro\<close> that has opted in to
  soft navigation, with a toy URL parser that knows three strings. It is the input of the
  evaluated instances below.
\<close>

definition demoParse :: "url \<Rightarrow> string \<Rightarrow> url option" where
  "demoParse base s =
     (if s = ''/b'' then Some \<lparr>origin = origin base, pathname = ''/b'', search = [], hash = []\<rparr>
      else if s = ''/docs/page?a=1#usage''
        then Some \<lparr>origin = origin base, pathname = ''/docs/page'', search = ''?a=1'', hash = ''#usage''\<rparr>
      else if s = ''https://other.example/''
        then Some \<lparr>origin = ''https://other.example'', pathname = ''/'', search = [], hash = []\<rparr>
      else None)"

definition demoDocument :: "node list" where
  "demoDocument =
     [Element 0 ''html'' [(''lang'', ''en'')]
        [Element 1 ''head'' []
           [Element 2 ''meta'' [(''name'', ''mkdocs-view-transitions-enabled'')] []],
         Element 3 ''body'' []
           [Element 4 ''a'' [(''href'', ''/b'')] [Text ''next'']]]]"

definition demoWorld :: world where
  "demoWorld =
     \<lparr>location =
        \<lparr>origin = ''https://wiki.example'', pathname = ''/docs/page'', search = ''?a=1'',
         hash = ''#intro''\<rparr>,
      historyState = Some \<lparr>index = 0, scrollX = 0, scrollY = 0, callerState = []\<rparr>,
      scrollRestoration = ''manual'',
      windowScrollX = 0,
      windowScrollY = 120,
      navigationIndex = 0,
      currentLocation =
        \<lparr>origin = ''https://wiki.example'', pathname = ''/docs/page'', search = ''?a=1'',
         hash = ''#intro''\<rparr>,
      skipTransition = False,
      supportsViewTransitions = True,
      onLine = True,
      connection = None,
      prefetchedPages = {},
      document = demoDocument,
      detached = [],
      activeElement = None,
      textControls = (\<lambda>i. None),
      nextId = 5,
      listenersCancel = False,
      network = (\<lambda>u body. None),
      domParser = (\<lambda>html mediaType. []),
      urlParse = demoParse,
      trace = []\<rparr>"

definition hoverOptions :: "prefetchOptions option" where
  "hoverOptions = Some \<lparr>withKind = Some ''fetch'', ignoreSlowConnection = None\<rparr>"

definition tapOptions :: "prefetchOptions option" where
  "tapOptions = Some \<lparr>withKind = Some ''fetch'', ignoreSlowConnection = Some True\<rparr>"

definition saveDataWorld :: world where
  "saveDataWorld = demoWorld\<lparr>connection := Some \<lparr>saveData = True, effectiveType = ''4g''\<rparr>\<rparr>"

definition herePage :: url where
  "herePage =
     \<lparr>origin = ''https://wiki.example'', pathname = ''/docs/page'', search = ''?a=1'',
      hash = ''#intro''\<rparr>"



definition pageB :: url where
  "pageB = \<lparr>origin = ''https://wiki.example'', pathname = ''/b'', search = [], hash = []\<rparr>"

definition jsonResponse :: "string \<Rightarrow> response" where
  "jsonResponse u =
     \<lparr>contentTypeHeader = Some ''application/json; charset=utf-8'', bodyText = Some ''{}'',
      redirected = False, responseUrl = u\<rparr>"

definition jsonWorld :: world where
  "jsonWorld = demoWorld\<lparr>network := (\<lambda>u body. Some (jsonResponse u))\<rparr>"

text \<open>A destination that has not opted in: its document has no marker element.\<close>

definition plainDocument :: "node list" where
  "plainDocument =
     [Element 0 ''html'' []
        [Element 1 ''head'' [] [Element 2 ''title'' [] [Text ''B'']],
         Element 3 ''body'' [] [Element 4 ''p'' [] [Text ''saved'']]]]"

definition htmlResponse :: "string \<Rightarrow> response" where
  "htmlResponse u =
     \<lparr>contentTypeHeader = Some ''text/html; charset=utf-8'', bodyText = Some ''B'',
      redirected = False, responseUrl = u\<rparr>"

definition plainDestinationWorld :: world where
  "plainDestinationWorld =
     demoWorld\<lparr>network := (\<lambda>u body. Some (htmlResponse u)),
               domParser := (\<lambda>html mediaType. plainDocument)\<rparr>"

definition formOptions :: navOptions where
  "formOptions = \<lparr>optHistory = None, optFormData = Some ''title=B'', optState = None\<rparr>"

text \<open>A page that has not opted in, reached by the back button from entry 5.\<close>

definition entryFive :: hstate where
  "entryFive = \<lparr>index = 5, scrollX = 0, scrollY = 40, callerState = []\<rparr>"

definition plainWorld :: world where
  "plainWorld = demoWorld\<lparr>document := plainDocument, historyState := Some entryFive\<rparr>"

definition entryZero :: hstate where
  "entryZero = \<lparr>index = 0, scrollX = 0, scrollY = 0, callerState = []\<rparr>"

text \<open>The same page after three pushes, when the back button returns to entry 0.\<close>

definition aheadWorld :: world where
  "aheadWorld = demoWorld\<lparr>navigationIndex := 3\<rparr>"

text \<open>
  A page after a swap: an inline script, a data block, an external script, and a script
  that was already run.
\<close>

definition scriptDocument :: "node list" where
  "scriptDocument =
     [Element 0 ''html'' []
        [Element 1 ''head'' []
           [Element 2 ''script'' [(''src'', ''/app.js''), (''type'', ''module'')] []],
         Element 3 ''body'' []
           [Element 4 ''script'' [] [Text ''init()''],
            Element 5 ''script'' [(''type'', ''application/json'')] [Text ''{}''],
            Element 6 ''script'' [(''data-mkdocs-exec'', [])] [Text ''boot()'']]]]"

definition scriptWorld :: world where
  "scriptWorld = demoWorld\<lparr>document := scriptDocument, nextId := 7\<rparr>"













section \<open>Theorems\<close>

text \<open>
  C8. escapeRegExp is claimed to put a backslash in front of every regex metacharacter and
  to keep the character. On the input \<^verbatim>\<open>a.b\<close> the code drops the dot and inserts the
  literal replacement text instead, so its result differs from the escaped string
  \<^verbatim>\<open>a\.b\<close>.
\<close>

theorem escapeRegExp_drops_metachar:
  "escapeRegExp ''a.b'' = ''a'' @ [CHR 0x5C] @ ''        // Adb''
   \<and> escapeRegExp_spec ''a.b'' = ''a'' @ [CHR 0x5C] @ ''.b''
   \<and> escapeRegExp ''a.b'' \<noteq> escapeRegExp_spec ''a.b''"
  by (simp add: escapeRegExp_def escapeRegExp_spec_def regexMetachars_def escapeReplacement_def)

subsection \<open>Prefetch\<close>

lemma prefetchedPages_appendToHead:
  "prefetchedPages (snd (appendToHead ns w)) = prefetchedPages w"
  by (simp add: appendToHead_def split: option.splits)

lemma prefetchedPages_prefetchPage:
  "canPrefetch w u (optIgnoreSlow options) \<Longrightarrow>
   prefetchedPages (snd (prefetchPage u options w)) = insert u (prefetchedPages w)"
  by (simp add: prefetchPage_def Let_def createElement_def emit_def prefetchedPages_appendToHead)

lemma canPrefetch_member: "u \<in> prefetchedPages w \<Longrightarrow> \<not> canPrefetch w u ignoreSlow"
  by (simp add: canPrefetch_def split: option.splits)

text \<open>
  C6, as amended. When a call of prefetchPage passes canPrefetch, the URL is a member of
  the prefetched set afterwards; canPrefetch is then false for that URL whatever the
  connection option, and any later call of prefetchPage on the URL returns with the page
  unchanged: the set is the same, no request is made and no link element is created.
\<close>

theorem prefetchPage_again_noop:
  assumes "canPrefetch w u (optIgnoreSlow options)"
  shows "u \<in> prefetchedPages (snd (prefetchPage u options w))
     \<and> \<not> canPrefetch (snd (prefetchPage u options w)) u ignoreSlow
     \<and> prefetchPage u options' (snd (prefetchPage u options w))
         = (None, snd (prefetchPage u options w))"
proof -
  let ?w1 = "snd (prefetchPage u options w)"
  have member: "u \<in> prefetchedPages ?w1"
    using assms by (simp add: prefetchedPages_prefetchPage)
  have gate: "\<not> canPrefetch ?w1 u b" for b
    using member by (rule canPrefetch_member)
  have "prefetchPage u options' ?w1 = (None, ?w1)"
    using gate [of "optIgnoreSlow options'"] by (simp add: prefetchPage_def)
  with member gate show ?thesis by blast
qed

lemma demo_canPrefetch: "canPrefetch demoWorld ''/b'' False"
  by (simp add: canPrefetch_def demoWorld_def demoParse_def isSlowConnection_def)

theorem prefetchPage_again_noop_witness:
  "canPrefetch demoWorld ''/b'' (optIgnoreSlow hoverOptions)
   \<and> ''/b'' \<in> prefetchedPages (snd (prefetchPage ''/b'' hoverOptions demoWorld))
   \<and> \<not> canPrefetch (snd (prefetchPage ''/b'' hoverOptions demoWorld)) ''/b'' True
   \<and> prefetchPage ''/b'' tapOptions (snd (prefetchPage ''/b'' hoverOptions demoWorld))
       = (None, snd (prefetchPage ''/b'' hoverOptions demoWorld))"
proof -
  have gate: "canPrefetch demoWorld ''/b'' (optIgnoreSlow hoverOptions)"
    using demo_canPrefetch by (simp add: optIgnoreSlow_def hoverOptions_def)
  show ?thesis
    using gate prefetchPage_again_noop [OF gate, of True tapOptions] by simp
qed

text \<open>
  The claim as stated, for every URL, fails where the first call is turned away by the
  gate. On a connection with the save-data flag, a hover prefetch of \<^verbatim>\<open>/b\<close> returns
  without adding the URL to the set; the tap prefetch of the same URL that follows ignores
  the slow connection and issues the request.
\<close>

theorem prefetchPage_again_counterexample:
  "''/b'' \<notin> prefetchedPages (snd (prefetchPage ''/b'' hoverOptions saveDataWorld))
   \<and> trace (snd (prefetchPage ''/b'' hoverOptions saveDataWorld)) = []
   \<and> trace (snd (prefetchPage ''/b'' tapOptions
                    (snd (prefetchPage ''/b'' hoverOptions saveDataWorld))))
       = [Fetch ''/b'' None]
   \<and> prefetchedPages (snd (prefetchPage ''/b'' tapOptions
                    (snd (prefetchPage ''/b'' hoverOptions saveDataWorld))))
       = {''/b''}"
proof -
  have first: "prefetchPage ''/b'' hoverOptions saveDataWorld = (None, saveDataWorld)"
    by (simp add: prefetchPage_def canPrefetch_def optIgnoreSlow_def hoverOptions_def
        saveDataWorld_def demoWorld_def isSlowConnection_def)
  have gate: "canPrefetch saveDataWorld ''/b'' True"
    by (simp add: canPrefetch_def saveDataWorld_def demoWorld_def demoParse_def)
  have second: "snd (prefetchPage ''/b'' tapOptions saveDataWorld)
      = emit (Fetch ''/b'' None) (saveDataWorld\<lparr>prefetchedPages := {''/b''}\<rparr>)"
    using gate
    by (simp add: prefetchPage_def optIgnoreSlow_def optWith_def tapOptions_def Let_def
        saveDataWorld_def demoWorld_def)
  show ?thesis
    unfolding first snd_conv second
    by (simp add: emit_def saveDataWorld_def demoWorld_def)
qed

text \<open>
  C10. When the URL parser rejects the string (the \<^verbatim>\<open>TypeError\<close> of \<^verbatim>\<open>new URL\<close>, caught
  in canPrefetch), canPrefetch is false and prefetchPage returns normally with the page
  unchanged: the string is not added to the prefetched set, no request is made, no link
  element is created.
\<close>

theorem canPrefetch_unparsable:
  assumes "urlParse w (location w) u = None"
  shows "\<not> canPrefetch w u ignoreSlow \<and> prefetchPage u options w = (None, w)"
proof -
  have gate: "\<not> canPrefetch w u b" for b
    using assms by (simp add: canPrefetch_def)
  then show ?thesis by (simp add: prefetchPage_def)
qed

theorem canPrefetch_unparsable_witness:
  "urlParse demoWorld (location demoWorld) ''http://['' = None
   \<and> \<not> canPrefetch demoWorld ''http://['' True
   \<and> prefetchPage ''http://['' tapOptions demoWorld = (None, demoWorld)"
proof -
  have unparsable: "urlParse demoWorld (location demoWorld) ''http://['' = None"
    by (simp add: demoWorld_def demoParse_def)
  show ?thesis
    using unparsable canPrefetch_unparsable [OF unparsable, of True tapOptions] by simp
qed

subsection \<open>What each step leaves alone\<close>

lemma emit_fields [simp]:
  "trace (emit e w) = trace w @ [e]"
  "navigationIndex (emit e w) = navigationIndex w"
  "historyState (emit e w) = historyState w"
  "location (emit e w) = location w"
  "document (emit e w) = document w"
  "network (emit e w) = network w"
  "listenersCancel (emit e w) = listenersCancel w"
  "windowScrollX (emit e w) = windowScrollX w"
  "windowScrollY (emit e w) = windowScrollY w"
  "skipTransition (emit e w) = skipTransition w"
  by (simp_all add: emit_def)

lemma historyWrites_emit [simp]:
  "historyWrites (emit e w) = historyWrites w @ (if isHistoryWrite e then [e] else [])"
  by (simp add: historyWrites_def)

lemma fetches_emit [simp]:
  "fetches (emit e w) = fetches w @ (if isFetch e then [e] else [])"
  by (simp add: fetches_def)

lemma isHistoryWrite_simps [simp]:
  "isHistoryWrite (PushState st u)" "isHistoryWrite (ReplaceState st' v)"
  "\<not> isHistoryWrite (Fetch u body)" "\<not> isHistoryWrite (AssignHref u)"
  "\<not> isHistoryWrite (FragmentNavigation u)" "\<not> isHistoryWrite Reload"
  "\<not> isHistoryWrite (Dispatch n)" "\<not> isHistoryWrite (ScrollTo x y)"
  "\<not> isHistoryWrite (Animate p)" "\<not> isHistoryWrite StartViewTransition"
  "\<not> isHistoryWrite (Timer k)" "\<not> isHistoryWrite (RunScript i)"
  "\<not> isHistoryWrite (AwaitLoad i)"
  by (simp_all add: isHistoryWrite_def)

lemma isFetch_simps [simp]:
  "isFetch (Fetch u body)" "\<not> isFetch (PushState st u)" "\<not> isFetch (ReplaceState st' v)"
  "\<not> isFetch (AssignHref u)" "\<not> isFetch (FragmentNavigation u)" "\<not> isFetch (ScrollTo x y)"
  by (simp_all add: isFetch_def)

lemma historyWrites_cong: "trace w' = trace w \<Longrightarrow> historyWrites w' = historyWrites w"
  by (simp add: historyWrites_def)

lemma updateHistoryState_fields [simp]:
  "network (updateHistoryState x y w) = network w"
  "listenersCancel (updateHistoryState x y w) = listenersCancel w"
  "document (updateHistoryState x y w) = document w"
  "location (updateHistoryState x y w) = location w"
  "navigationIndex (updateHistoryState x y w) = navigationIndex w"
  by (simp_all add: updateHistoryState_def originalReplaceState_def split: option.splits)

lemma scrollSnapshot_fields [simp]:
  "network (scrollSnapshot s w) = network w"
  "listenersCancel (scrollSnapshot s w) = listenersCancel w"
  "document (scrollSnapshot s w) = document w"
  "location (scrollSnapshot s w) = location w"
  "navigationIndex (scrollSnapshot s w) = navigationIndex w"
  by (simp_all add: scrollSnapshot_def)

lemma historyWrites_scrollSnapshot:
  "historyWrites (scrollSnapshot s w) = historyWrites w @ snapshotWrites s w"
  by (simp add: scrollSnapshot_def snapshotWrites_def updateHistoryState_def
      originalReplaceState_def historyWrites_def split: option.splits)


lemma navigateToPage_snapshot:
  "(if navigationTypeOf options scrollState \<noteq> Traverse
    then updateHistoryState (windowScrollX w) (windowScrollY w) w else w)
   = scrollSnapshot scrollState w"
  by (simp add: scrollSnapshot_def navigationTypeOf_def split: option.splits)

lemma assignHref_fields [simp]:
  "historyWrites (assignHref u w) = historyWrites w"
  "fetches (assignHref u w) = fetches w"
  "navigationIndex (assignHref u w) = navigationIndex w"
  "document (assignHref u w) = document w"
  by (simp_all add: assignHref_def historyWrites_def fetches_def)

subsection \<open>The fetch of a page that is not HTML\<close>

lemma fetchPage_nonHtml:
  assumes "network w u (optFormData options) = Some r"
    and "mediaTypeOf (contentTypeHeader r) \<noteq> ''text/html''"
    and "mediaTypeOf (contentTypeHeader r) \<noteq> ''application/xhtml+xml''"
  shows "fetchPage u options w = (None, emit (Fetch u (optFormData options)) w)"
  using assms by (simp add: fetchPage_def Let_def)

lemma dispatchBeforePreparation_nonHtml:
  assumes noCancel: "\<not> listenersCancel w"
    and resp: "network w (href toUrl) (optFormData options) = Some r"
    and nonHtml: "mediaTypeOf (contentTypeHeader r) \<noteq> ''text/html''"
       "mediaTypeOf (contentTypeHeader r) \<noteq> ''application/xhtml+xml''"
  shows "dispatchBeforePreparation fromUrl toUrl direction nt options w
     = (None, \<lparr>prepFrom = fromUrl, prepTo = toUrl, prepDirection = direction,
                prepNavigationType = nt, prepNewDocument = None,
                defaultPrevented = True\<rparr>,
        emit (Fetch (href toUrl) (optFormData options))
          (emit (Dispatch ''mkdocs:before-preparation'') w))"
proof -
  let ?w2 = "emit (Dispatch ''mkdocs:before-preparation'') w"
  have f: "fetchPage (href toUrl) options ?w2
      = (None, emit (Fetch (href toUrl) (optFormData options)) ?w2)"
    using resp nonHtml by (intro fetchPage_nonHtml) simp_all
  show ?thesis
    using noCancel by (simp add: dispatchBeforePreparation_def Let_def loader_def f)
qed

text \<open>
  C1, as amended. A navigation that reaches the fetch (soft navigation enabled, same
  origin, not a same-page fragment navigation, no listener cancels) and whose response
  has a media type other than \<^verbatim>\<open>text/html\<close> and \<^verbatim>\<open>application/xhtml+xml\<close>: fetchPage
  returns null, the event comes back cancelled, and navigateToPage ends by assigning
  \<^verbatim>\<open>location.href\<close>. No history entry is pushed. The one history call of the run is the
  scroll snapshot that updateHistoryState writes into the current entry before the fetch,
  when the navigation is not a traversal and the entry has a state.
\<close>

theorem navigateToPage_nonHtml_fallback:
  assumes enabled: "isViewTransitionsEnabled w"
    and sameOrigin: "origin (location w) = origin toUrl"
    and notSamePage:
      "\<not> (pathname fromUrl = pathname toUrl \<and> search fromUrl = search toUrl
          \<and> ((direction \<noteq> Back \<and> hash toUrl \<noteq> []) \<or> (direction = Back \<and> hash fromUrl \<noteq> [])))"
    and noCancel: "\<not> listenersCancel w"
    and resp: "network w (href toUrl) (optFormData options) = Some r"
    and nonHtml: "mediaTypeOf (contentTypeHeader r) \<noteq> ''text/html''"
       "mediaTypeOf (contentTypeHeader r) \<noteq> ''application/xhtml+xml''"
  shows "fst (fetchPage (href toUrl) options
                (emit (Dispatch ''mkdocs:before-preparation'') (scrollSnapshot scrollState w)))
           = None
     \<and> defaultPrevented (fst (snd (dispatchBeforePreparation fromUrl toUrl direction
           (navigationTypeOf options scrollState) options (scrollSnapshot scrollState w))))
     \<and> navigateToPage direction fromUrl toUrl options scrollState w
         = (None, assignHref toUrl
              (emit (Fetch (href toUrl) (optFormData options))
                 (emit (Dispatch ''mkdocs:before-preparation'') (scrollSnapshot scrollState w))))
     \<and> historyWrites (snd (navigateToPage direction fromUrl toUrl options scrollState w))
         = historyWrites w @ snapshotWrites scrollState w"
proof -
  let ?w1 = "scrollSnapshot scrollState w"
  let ?w2 = "emit (Dispatch ''mkdocs:before-preparation'') ?w1"
  have pre: "\<not> listenersCancel ?w1" "network ?w1 (href toUrl) (optFormData options) = Some r"
    using noCancel resp by simp_all
  note d = dispatchBeforePreparation_nonHtml [OF pre nonHtml]
  have f: "fst (fetchPage (href toUrl) options ?w2) = None"
    using resp nonHtml by (subst fetchPage_nonHtml) simp_all
  have n: "navigateToPage direction fromUrl toUrl options scrollState w
      = (None, assignHref toUrl (emit (Fetch (href toUrl) (optFormData options)) ?w2))"
    using enabled sameOrigin notSamePage
    unfolding navigateToPage_def Let_def navigationTypeOf_def [symmetric] navigateToPage_snapshot
    by (auto simp add: d)
  have h: "historyWrites (snd (navigateToPage direction fromUrl toUrl options scrollState w))
      = historyWrites w @ snapshotWrites scrollState w"
    by (simp add: n historyWrites_scrollSnapshot)
  show ?thesis
    using f n h by (simp add: d)
qed

lemma demo_enabled: "isViewTransitionsEnabled demoWorld"
  by (simp add: isViewTransitionsEnabled_def demoWorld_def demoDocument_def forestElements_def
      matchesName_def enabledMarker_def getAttribute_def)

lemma jsonWorld_enabled: "isViewTransitionsEnabled jsonWorld"
  using demo_enabled by (simp add: isViewTransitionsEnabled_def jsonWorld_def)

lemma json_mediaType:
  "mediaTypeOf (contentTypeHeader (jsonResponse u)) = ''application/json''"
  by (simp add: mediaTypeOf_def jsonResponse_def jsTrim_def isJsSpace_def)

theorem navigateToPage_nonHtml_fallback_witness:
  "isViewTransitionsEnabled jsonWorld
   \<and> fst (fetchPage (href pageB) noOptions
            (emit (Dispatch ''mkdocs:before-preparation'') (scrollSnapshot None jsonWorld))) = None
   \<and> defaultPrevented (fst (snd (dispatchBeforePreparation herePage pageB Forward
         (navigationTypeOf noOptions None) noOptions (scrollSnapshot None jsonWorld))))
   \<and> navigateToPage Forward herePage pageB noOptions None jsonWorld
       = (None, assignHref pageB
            (emit (Fetch (href pageB) (optFormData noOptions))
               (emit (Dispatch ''mkdocs:before-preparation'') (scrollSnapshot None jsonWorld))))
   \<and> historyWrites (snd (navigateToPage Forward herePage pageB noOptions None jsonWorld))
       = historyWrites jsonWorld @ snapshotWrites None jsonWorld"
proof -
  have a: "origin (location jsonWorld) = origin pageB"
    by (simp add: jsonWorld_def demoWorld_def pageB_def)
  have b: "\<not> (pathname herePage = pathname pageB \<and> search herePage = search pageB
          \<and> ((Forward \<noteq> Back \<and> hash pageB \<noteq> []) \<or> (Forward = Back \<and> hash herePage \<noteq> [])))"
    by (simp add: herePage_def pageB_def)
  have c: "\<not> listenersCancel jsonWorld"
    by (simp add: jsonWorld_def demoWorld_def)
  have d: "network jsonWorld (href pageB) (optFormData noOptions) = Some (jsonResponse (href pageB))"
    by (simp add: jsonWorld_def)
  have e: "mediaTypeOf (contentTypeHeader (jsonResponse (href pageB))) \<noteq> ''text/html''"
      "mediaTypeOf (contentTypeHeader (jsonResponse (href pageB))) \<noteq> ''application/xhtml+xml''"
    by (simp_all add: json_mediaType)
  show ?thesis
    using jsonWorld_enabled
      navigateToPage_nonHtml_fallback [OF jsonWorld_enabled a b c d e, of None]
    by blast
qed

text \<open>
  As stated, with no history entry pushed or replaced, the claim fails: on the page
  scrolled to 120 whose entry records 0, the navigation to the JSON address calls
  \<^verbatim>\<open>replaceState\<close> before the fetch, and the entry's state is a different one afterwards.
\<close>

theorem navigateToPage_nonHtml_counterexample:
  "trace (snd (navigateToPage Forward herePage pageB noOptions None jsonWorld))
     = [ReplaceState (Some \<lparr>index = 0, scrollX = 0, scrollY = 120, callerState = []\<rparr>) None,
        Dispatch ''mkdocs:before-preparation'',
        Fetch ''https://wiki.example/b'' None,
        AssignHref ''https://wiki.example/b'']
   \<and> historyState jsonWorld = Some \<lparr>index = 0, scrollX = 0, scrollY = 0, callerState = []\<rparr>
   \<and> historyState (snd (navigateToPage Forward herePage pageB noOptions None jsonWorld))
       = Some \<lparr>index = 0, scrollX = 0, scrollY = 120, callerState = []\<rparr>"
proof -
  have a: "origin (location jsonWorld) = origin pageB"
    by (simp add: jsonWorld_def demoWorld_def pageB_def)
  have b: "\<not> (pathname herePage = pathname pageB \<and> search herePage = search pageB
          \<and> ((Forward \<noteq> Back \<and> hash pageB \<noteq> []) \<or> (Forward = Back \<and> hash herePage \<noteq> [])))"
    by (simp add: herePage_def pageB_def)
  have c: "\<not> listenersCancel jsonWorld"
    by (simp add: jsonWorld_def demoWorld_def)
  have d: "network jsonWorld (href pageB) (optFormData noOptions) = Some (jsonResponse (href pageB))"
    by (simp add: jsonWorld_def)
  have c': "\<not> listenersCancel (scrollSnapshot None jsonWorld)"
      "network (scrollSnapshot None jsonWorld) (href pageB) (optFormData noOptions)
         = Some (jsonResponse (href pageB))"
    using c d by simp_all
  have e: "mediaTypeOf (contentTypeHeader (jsonResponse (href pageB))) \<noteq> ''text/html''"
      "mediaTypeOf (contentTypeHeader (jsonResponse (href pageB))) \<noteq> ''application/xhtml+xml''"
    by (simp_all add: json_mediaType)
  have n: "navigateToPage Forward herePage pageB noOptions None jsonWorld
      = (None, assignHref pageB
            (emit (Fetch (href pageB) (optFormData noOptions))
               (emit (Dispatch ''mkdocs:before-preparation'') (scrollSnapshot None jsonWorld))))"
    using jsonWorld_enabled a b
    unfolding navigateToPage_def Let_def navigationTypeOf_def [symmetric] navigateToPage_snapshot
    by (auto simp add: dispatchBeforePreparation_nonHtml [OF c' e])
  show ?thesis
    unfolding n snd_conv
    by (simp add: assignHref_def scrollSnapshot_def updateHistoryState_def
        originalReplaceState_def jsonWorld_def demoWorld_def pageB_def href_def noOptions_def)
qed

subsection \<open>Steps that write no history\<close>

lemma quiet_refl [simp]: "quiet w w"
  by (simp add: quiet_def)

lemma quiet_trans: "quiet w w1 \<Longrightarrow> quiet w1 w2 \<Longrightarrow> quiet w w2"
  by (simp add: quiet_def)

lemma quiet_emit: "\<not> isHistoryWrite e \<Longrightarrow> quiet w (emit e w)"
  by (simp add: quiet_def)

lemma quiet_fields:
  "trace w' = trace w \<Longrightarrow> navigationIndex w' = navigationIndex w \<Longrightarrow> quiet w w'"
  by (simp add: quiet_def historyWrites_def)

lemma quiet_assignHref: "quiet w (assignHref u w)"
  by (simp add: quiet_def)

lemma quiet_createElement: "quiet w (snd (createElement t w))"
  by (simp add: createElement_def quiet_fields)

lemma quiet_appendToHead: "quiet w (snd (appendToHead ns w))"
  by (simp add: appendToHead_def quiet_fields split: option.splits)

lemma quiet_preloadLinks: "quiet w (snd (preloadLinks links w))"
proof (induction links arbitrary: w)
  case Nil
  show ?case by simp
next
  case (Cons link rest)
  let ?h = "templateText (attrOf ''href'' link)"
  let ?new = "[withAttributes
                 (\<lambda>a. setAttribute ''href'' ?h
                        (setAttribute ''as'' ''style'' (setAttribute ''rel'' ''preload'' a)))
                 (fst (createElement ''link'' w))]"
  let ?w1 = "snd (createElement ''link'' w)"
  let ?w2 = "snd (appendToHead ?new ?w1)"
  have step: "quiet w ?w2"
    by (rule quiet_trans [OF quiet_createElement quiet_appendToHead])
  have a: "quiet w (snd (preloadLinks rest ?w2))"
    by (rule quiet_trans [OF step Cons.IH])
  have b: "quiet w (snd (preloadLinks rest (emit (AwaitLoad (ident (fst (createElement ''link'' w)))) ?w2)))"
    by (rule quiet_trans [OF quiet_trans [OF step quiet_emit] Cons.IH]) simp
  show ?case
    using a b Cons.IH [of w]
    by (simp add: Let_def case_prod_beta split: option.splits)
qed

lemma quiet_fetchPage: "quiet w (snd (fetchPage u options w))"
  by (simp add: fetchPage_def Let_def quiet_emit split: option.splits)

lemma quiet_parseFromString: "quiet w (snd (parseFromString html mediaType w))"
  by (simp add: parseFromString_def Let_def quiet_fields)

lemma quiet_loader: "quiet w (snd (snd (loader options ev w)))"
proof -
  let ?w1 = "snd (fetchPage (href (prepTo ev)) options w)"
  have a: "quiet w ?w1"
    by (rule quiet_fetchPage)
  have b: "quiet w (snd (parseFromString html mediaType ?w1))" for html mediaType
    by (rule quiet_trans [OF a quiet_parseFromString])
  have c: "quiet w (snd (preloadStylesheets d (snd (parseFromString html mediaType ?w1))))"
    for html mediaType d
    unfolding preloadStylesheets_def by (rule quiet_trans [OF b quiet_preloadLinks])
  show ?thesis
    using a b c
    by (simp add: loader_def Let_def case_prod_beta split: option.splits sum.splits list.splits)
qed

lemma loader_navigationType:
  "prepNavigationType (fst (snd (loader options ev w))) = prepNavigationType ev"
  by (auto simp add: loader_def Let_def case_prod_beta split: option.splits sum.splits list.splits)

lemma quiet_dispatchBeforePreparation_traverse:
  "quiet w (snd (snd (dispatchBeforePreparation fromUrl toUrl direction Traverse options w)))"
proof -
  let ?w1 = "emit (Dispatch ''mkdocs:before-preparation'') w"
  have a: "quiet w ?w1"
    by (simp add: quiet_emit)
  have b: "quiet w (snd (snd (loader options ev ?w1)))" for ev
    by (rule quiet_trans [OF a quiet_loader])
  have c: "quiet w (emit (Dispatch ''mkdocs:after-preparation'') (snd (snd (loader options ev ?w1))))"
    for ev
    by (rule quiet_trans [OF b quiet_emit]) simp
  show ?thesis
    using a b c
    by (simp add: dispatchBeforePreparation_def Let_def case_prod_beta loader_navigationType
        split: option.splits)
qed

lemma quiet_setRootAttribute: "quiet w (snd (setRootAttribute n v w))"
  by (simp add: setRootAttribute_def quiet_fields split: option.splits)

lemma quiet_animateTransition: "quiet w (snd (animateTransition phase w))"
proof -
  have "quiet w (emit (Animate phase) (snd (setRootAttribute ''data-mkdocs-transition-fallback'' phase w)))"
    by (rule quiet_trans [OF quiet_setRootAttribute quiet_emit]) simp
  then show ?thesis
    using quiet_setRootAttribute [of w "''data-mkdocs-transition-fallback''" phase]
    by (simp add: animateTransition_def case_prod_beta split: option.splits)
qed

text \<open>
  The swap never takes place: dispatchBeforeSwap calls swapDocument without an argument,
  which throws, so performPageSwap always ends with an exception and never reaches
  updateLocation.
\<close>

lemma dispatchBeforeSwap_throws:
  "fst (dispatchBeforeSwap ev w) = Some TypeError
   \<and> snd (snd (dispatchBeforeSwap ev w)) = emit (Dispatch ''mkdocs:before-swap'') w"
  by (simp add: dispatchBeforeSwap_def swapDocument_def Let_def)

lemma performPageSwap_throws: "fst (performPageSwap ev options scrollState fallback w) \<noteq> None"
  by (simp add: performPageSwap_def case_prod_beta dispatchBeforeSwap_throws split: option.splits)

lemma quiet_performPageSwap: "quiet w (snd (performPageSwap ev options scrollState fallback w))"
proof -
  let ?w1 = "snd (setRootAttribute ''data-mkdocs-transition'' (directionText (prepDirection ev)) w)"
  have a: "quiet w ?w1"
    by (rule quiet_setRootAttribute)
  have b: "quiet w (snd (animateTransition ''old'' ?w1))"
    by (rule quiet_trans [OF a quiet_animateTransition])
  have c: "quiet w (emit (Dispatch ''mkdocs:before-swap'') ?w1)"
    by (rule quiet_trans [OF a quiet_emit]) simp
  have d: "quiet w (emit (Dispatch ''mkdocs:before-swap'') (snd (animateTransition ''old'' ?w1)))"
    by (rule quiet_trans [OF b quiet_emit]) simp
  show ?thesis
    using a b c d
    by (simp add: performPageSwap_def case_prod_beta dispatchBeforeSwap_throws split: option.splits)
qed

lemma updateLocation_traverse:
  "fst (updateLocation to from options (Some s) w) = None
   \<and> quiet w (snd (updateLocation to from options (Some s) w))
   \<and> historyState (snd (updateLocation to from options (Some s) w)) = historyState w"
  by (simp add: updateLocation_def Let_def quiet_def historyWrites_def)

lemma navigateToPage_guarded:
  "\<not> isViewTransitionsEnabled w \<or> origin (location w) \<noteq> origin toUrl \<Longrightarrow>
   navigateToPage direction fromUrl toUrl options scrollState w = (None, assignHref toUrl w)"
  by (simp add: navigateToPage_def)

lemma navigateToPage_samePage:
  assumes "isViewTransitionsEnabled w" and "origin (location w) = origin toUrl"
    and "pathname fromUrl = pathname toUrl" and "search fromUrl = search toUrl"
    and "(direction \<noteq> Back \<and> hash toUrl \<noteq> []) \<or> (direction = Back \<and> hash fromUrl \<noteq> [])"
  shows "navigateToPage direction fromUrl toUrl options scrollState w
     = updateLocation toUrl fromUrl options scrollState (scrollSnapshot scrollState w)"
  using assms
  unfolding navigateToPage_def Let_def navigationTypeOf_def [symmetric] navigateToPage_snapshot
  by simp

lemma navigateToPage_fetching:
  assumes "isViewTransitionsEnabled w" and "origin (location w) = origin toUrl"
    and "\<not> (pathname fromUrl = pathname toUrl \<and> search fromUrl = search toUrl
          \<and> ((direction \<noteq> Back \<and> hash toUrl \<noteq> []) \<or> (direction = Back \<and> hash fromUrl \<noteq> [])))"
    and d: "dispatchBeforePreparation fromUrl toUrl direction
              (navigationTypeOf options scrollState) options (scrollSnapshot scrollState w)
            = (x, ev, w2)"
    and p: "performPageSwap ev options scrollState
              (if supportsViewTransitions w2 then None
               else getFallbackAnimation (w2\<lparr>skipTransition := False\<rparr>))
              (emit (if supportsViewTransitions w2 then StartViewTransition else Timer 0)
                 (w2\<lparr>skipTransition := False\<rparr>))
            = (Some y, w4)"
  shows "navigateToPage direction fromUrl toUrl options scrollState w
     = (case x of
          Some e \<Rightarrow> (Some e, w2)
        | None \<Rightarrow> if defaultPrevented ev then (None, assignHref toUrl w2) else (Some y, w4))"
proof -
  have "navigateToPage direction fromUrl toUrl options scrollState w
      = (case dispatchBeforePreparation fromUrl toUrl direction
                (navigationTypeOf options scrollState) options (scrollSnapshot scrollState w) of
           (Some x, ev, w2) \<Rightarrow> (Some x, w2)
         | (None, ev, w2) \<Rightarrow>
             if defaultPrevented ev then (None, assignHref toUrl w2)
             else
               let w3 = w2\<lparr>skipTransition := False\<rparr>;
                   fallback = (if supportsViewTransitions w3 then None
                               else getFallbackAnimation w3)
               in (case performPageSwap ev options scrollState fallback
                          (emit (if supportsViewTransitions w3 then StartViewTransition
                                 else Timer 0) w3) of
                     (Some x, w4) \<Rightarrow> (Some x, w4)
                   | (None, w4) \<Rightarrow>
                       let w5 = createRouteAnnouncer
                                  (emit (Dispatch ''mkdocs:page-load'') (executeScripts w4))
                       in if supportsViewTransitions w5 \<or> fallback = Some ''animate''
                          then (None,
                                snd (removeRootAttribute ''data-mkdocs-transition-fallback''
                                  (snd (removeRootAttribute ''data-mkdocs-transition'' w5))))
                          else (None, w5)))"
    using assms(1-3)
    unfolding navigateToPage_def Let_def navigationTypeOf_def [symmetric] navigateToPage_snapshot
    by (simp only: if_False if_True simp_thms)
  also have "\<dots> = (case x of
          Some e \<Rightarrow> (Some e, w2)
        | None \<Rightarrow> if defaultPrevented ev then (None, assignHref toUrl w2) else (Some y, w4))"
    unfolding d using p by (cases x) (simp_all add: Let_def)
  finally show ?thesis .
qed

lemma navigateToPage_traverse:
  "quiet w (snd (navigateToPage direction fromUrl toUrl options (Some s) w))"
proof (cases "\<not> isViewTransitionsEnabled w \<or> origin (location w) \<noteq> origin toUrl")
  case True
  then show ?thesis
    by (simp add: navigateToPage_guarded quiet_assignHref)
next
  case False
  then have guard: "isViewTransitionsEnabled w" "origin (location w) = origin toUrl"
    by simp_all
  have snap: "scrollSnapshot (Some s) w = w"
    by (simp add: scrollSnapshot_def)
  show ?thesis
  proof (cases "pathname fromUrl = pathname toUrl \<and> search fromUrl = search toUrl
      \<and> ((direction \<noteq> Back \<and> hash toUrl \<noteq> []) \<or> (direction = Back \<and> hash fromUrl \<noteq> []))")
    case True
    then have "navigateToPage direction fromUrl toUrl options (Some s) w
        = updateLocation toUrl fromUrl options (Some s) w"
      using navigateToPage_samePage [OF guard, of fromUrl direction options "Some s"]
      by (simp add: snap)
    then show ?thesis
      using updateLocation_traverse by simp
  next
    case samePage: False
    have nt: "navigationTypeOf options (Some s) = Traverse"
      by (simp add: navigationTypeOf_def)
    obtain x ev w2 where d:
      "dispatchBeforePreparation fromUrl toUrl direction Traverse options w = (x, ev, w2)"
      by (cases "dispatchBeforePreparation fromUrl toUrl direction Traverse options w") auto
    have q2: "quiet w w2"
      using quiet_dispatchBeforePreparation_traverse [of w fromUrl toUrl direction options]
      by (simp add: d)
    let ?w3 = "w2\<lparr>skipTransition := False\<rparr>"
    let ?fb = "if supportsViewTransitions w2 then None else getFallbackAnimation ?w3"
    let ?start = "emit (if supportsViewTransitions w2 then StartViewTransition else Timer 0) ?w3"
    obtain y w4 where p: "performPageSwap ev options (Some s) ?fb ?start = (Some y, w4)"
      using performPageSwap_throws [of ev options "Some s" ?fb ?start]
      by (cases "performPageSwap ev options (Some s) ?fb ?start") auto
    have "quiet w ?w3"
      using q2 by (simp add: quiet_def historyWrites_def)
    then have "quiet w ?start"
      by (rule quiet_trans) (simp add: quiet_emit)
    moreover have "quiet ?start w4"
      using quiet_performPageSwap [of ?start ev options "Some s" ?fb] by (simp add: p)
    ultimately have q4: "quiet w w4"
      by (rule quiet_trans)
    have n: "navigateToPage direction fromUrl toUrl options (Some s) w
        = (case x of
             Some e \<Rightarrow> (Some e, w2)
           | None \<Rightarrow> if defaultPrevented ev then (None, assignHref toUrl w2) else (Some y, w4))"
      by (rule navigateToPage_fetching [OF guard samePage]) (simp_all add: nt snap d p)
    show ?thesis
      using q2 q4 quiet_trans [OF q2 quiet_assignHref]
      by (simp add: n split: option.splits)
  qed
qed

subsection \<open>Same-page fragment navigation\<close>





subsection \<open>Back and forward\<close>

lemma enabled_navigationIndex [simp]:
  "isViewTransitionsEnabled (w\<lparr>navigationIndex := k\<rparr>) = isViewTransitionsEnabled w"
  by (simp add: isViewTransitionsEnabled_def)

lemma handlePopState_enabled:
  assumes "isViewTransitionsEnabled w" and "historyState w = Some st"
  shows "handlePopState (Some ev) w
     = navigateToPage (if index st > navigationIndex w then Forward else Back)
         (currentLocation w) (location w) noOptions (Some st) (w\<lparr>navigationIndex := index st\<rparr>)"
  using assms by (simp add: handlePopState_def)

lemma handlePopState_index:
  assumes "isViewTransitionsEnabled w" and "historyState w = Some st"
  shows "navigationIndex (snd (handlePopState (Some ev) w)) = index st
     \<and> historyWrites (snd (handlePopState (Some ev) w)) = historyWrites w"
proof -
  let ?d = "if index st > navigationIndex w then Forward else Back"
  let ?w = "w\<lparr>navigationIndex := index st\<rparr>"
  have "quiet ?w (snd (navigateToPage ?d (currentLocation w) (location w) noOptions (Some st) ?w))"
    by (rule navigateToPage_traverse)
  then show ?thesis
    by (simp add: handlePopState_enabled [OF assms] quiet_def historyWrites_def)
qed

text \<open>
  C4, as amended. On a page that has opted in to soft navigation, a popstate event that
  carries the state of the current entry makes the handler call navigateToPage with the
  direction forward when the index of the state is greater than the last known index and
  back otherwise, as a traversal with the state as scroll target. With a scroll state
  updateLocation makes no history call and leaves the state of the entry as it is, and
  the whole handling of the event makes none either.
\<close>

theorem handlePopState_direction:
  assumes enabled: "isViewTransitionsEnabled w"
    and current: "historyState w = Some st"
  shows "handlePopState (Some st) w
       = navigateToPage (if index st > navigationIndex w then Forward else Back)
           (currentLocation w) (location w) noOptions (Some st) (w\<lparr>navigationIndex := index st\<rparr>)
     \<and> historyWrites (snd (updateLocation to from options (Some s) w')) = historyWrites w'
     \<and> historyState (snd (updateLocation to from options (Some s) w')) = historyState w'
     \<and> historyWrites (snd (handlePopState (Some st) w)) = historyWrites w"
  using handlePopState_enabled [OF assms, of st] handlePopState_index [OF assms, of st]
    updateLocation_traverse [of to "from" options s w']
  by (simp add: quiet_def)

lemma demo_historyState: "historyState demoWorld = Some entryZero"
  by (simp add: demoWorld_def entryZero_def)

theorem handlePopState_direction_witness:
  "isViewTransitionsEnabled demoWorld \<and> historyState demoWorld = Some entryZero
   \<and> handlePopState (Some entryZero) demoWorld
       = navigateToPage (if index entryZero > navigationIndex demoWorld then Forward else Back)
           (currentLocation demoWorld) (location demoWorld) noOptions (Some entryZero)
           (demoWorld\<lparr>navigationIndex := index entryZero\<rparr>)
   \<and> historyWrites (snd (updateLocation pageB herePage noOptions (Some entryFive) demoWorld))
       = historyWrites demoWorld
   \<and> historyState (snd (updateLocation pageB herePage noOptions (Some entryFive) demoWorld))
       = historyState demoWorld
   \<and> historyWrites (snd (handlePopState (Some entryZero) demoWorld)) = historyWrites demoWorld"
  using demo_enabled demo_historyState
    handlePopState_direction [OF demo_enabled demo_historyState,
      of pageB herePage noOptions entryFive demoWorld]
  by blast

lemma plainWorld_disabled: "\<not> isViewTransitionsEnabled plainWorld"
  by (simp add: isViewTransitionsEnabled_def plainWorld_def plainDocument_def forestElements_def
      matchesName_def getAttribute_def)

text \<open>
  The claim as stated covers every popstate event with a state. On a page that has not
  opted in, the handler reloads the page whatever the index: it classifies nothing and
  calls no navigation.
\<close>

theorem handlePopState_direction_counterexample:
  "index entryFive > navigationIndex plainWorld
   \<and> historyState plainWorld = Some entryFive
   \<and> handlePopState (Some entryFive) plainWorld = (None, emit Reload plainWorld)
   \<and> trace (snd (navigateToPage Forward (currentLocation plainWorld) (location plainWorld)
                    noOptions (Some entryFive)
                    (plainWorld\<lparr>navigationIndex := index entryFive\<rparr>)))
       \<noteq> trace (snd (handlePopState (Some entryFive) plainWorld))"
proof -
  have h: "handlePopState (Some entryFive) plainWorld = (None, emit Reload plainWorld)"
    using plainWorld_disabled by (simp add: handlePopState_def)
  have n: "navigateToPage Forward (currentLocation plainWorld) (location plainWorld)
             noOptions (Some entryFive) (plainWorld\<lparr>navigationIndex := index entryFive\<rparr>)
      = (None, assignHref (location plainWorld) (plainWorld\<lparr>navigationIndex := index entryFive\<rparr>))"
    using plainWorld_disabled by (simp add: navigateToPage_guarded)
  show ?thesis
    unfolding h n snd_conv
    by (simp add: assignHref_def plainWorld_def demoWorld_def entryFive_def)
qed

text \<open>
  C5, as amended. On a page that has opted in, two calls of the popstate handler in
  succession, both finding the same state in the current entry, leave the tracked index
  equal to the index of that state: the handler assigns the index, and a traversal never
  changes it.
\<close>

theorem handlePopState_twice:
  assumes enabled: "isViewTransitionsEnabled w"
    and current: "historyState w = Some st"
    and again: "historyState (snd (handlePopState (Some st) w)) = Some st"
  shows "navigationIndex (snd (handlePopState (Some st) w)) = index st
     \<and> navigationIndex (snd (handlePopState (Some st) (snd (handlePopState (Some st) w))))
         = index st"
proof -
  let ?w1 = "snd (handlePopState (Some st) w)"
  have first: "navigationIndex ?w1 = index st"
    using handlePopState_index [OF enabled current] by simp
  have second: "navigationIndex (snd (handlePopState (Some st) ?w1)) = index st"
  proof (cases "isViewTransitionsEnabled ?w1")
    case True
    then show ?thesis
      using handlePopState_index [OF True again] by simp
  next
    case False
    then show ?thesis
      using first by (simp add: handlePopState_def)
  qed
  show ?thesis
    using first second by simp
qed

lemma ahead_popstate:
  "handlePopState (Some entryZero) aheadWorld = (None, demoWorld)"
proof -
  have en: "isViewTransitionsEnabled aheadWorld"
    using demo_enabled by (simp add: aheadWorld_def)
  have hs: "historyState aheadWorld = Some entryZero"
    by (simp add: aheadWorld_def demo_historyState)
  have a: "origin (location demoWorld) = origin (location demoWorld)"
    by simp
  have w: "aheadWorld\<lparr>navigationIndex := index entryZero\<rparr> = demoWorld"
    by (simp add: aheadWorld_def demoWorld_def entryZero_def)
  have n: "navigateToPage Back (currentLocation demoWorld) (location demoWorld) noOptions
              (Some entryZero) demoWorld
      = updateLocation (location demoWorld) (currentLocation demoWorld) noOptions
          (Some entryZero) (scrollSnapshot (Some entryZero) demoWorld)"
    by (rule navigateToPage_samePage [OF demo_enabled a]) (simp_all add: demoWorld_def)
  have u: "updateLocation (location demoWorld) (currentLocation demoWorld) noOptions
          (Some entryZero) (scrollSnapshot (Some entryZero) demoWorld) = (None, demoWorld)"
    by (simp add: updateLocation_def scrollSnapshot_def Let_def) (simp add: demoWorld_def)
  have d: "\<not> index entryZero > navigationIndex aheadWorld"
    "currentLocation aheadWorld = currentLocation demoWorld"
    "location aheadWorld = location demoWorld"
    by (simp_all add: aheadWorld_def entryZero_def)
  show ?thesis
    using handlePopState_enabled [OF en hs, of entryZero] d
    by (simp add: w n u)
qed

theorem handlePopState_twice_witness:
  "isViewTransitionsEnabled aheadWorld \<and> historyState aheadWorld = Some entryZero
   \<and> navigationIndex aheadWorld = 3 \<and> index entryZero = 0
   \<and> historyState (snd (handlePopState (Some entryZero) aheadWorld)) = Some entryZero
   \<and> navigationIndex (snd (handlePopState (Some entryZero) aheadWorld)) = index entryZero
   \<and> navigationIndex (snd (handlePopState (Some entryZero)
         (snd (handlePopState (Some entryZero) aheadWorld)))) = index entryZero"
proof -
  have en: "isViewTransitionsEnabled aheadWorld"
    using demo_enabled by (simp add: aheadWorld_def)
  have hs: "historyState aheadWorld = Some entryZero"
    by (simp add: aheadWorld_def demo_historyState)
  have again: "historyState (snd (handlePopState (Some entryZero) aheadWorld)) = Some entryZero"
    by (simp add: ahead_popstate demo_historyState)
  have ix: "navigationIndex aheadWorld = 3" "index entryZero = 0"
    by (simp_all add: aheadWorld_def entryZero_def)
  show ?thesis
    using en hs again ix handlePopState_twice [OF en hs again]
    by blast
qed

text \<open>
  On a page that has not opted in both calls reload and leave the tracked index where it
  was: 0, while the state's index is 5.
\<close>

theorem handlePopState_twice_counterexample:
  "index entryFive = 5
   \<and> historyState (snd (handlePopState (Some entryFive) plainWorld)) = Some entryFive
   \<and> navigationIndex (snd (handlePopState (Some entryFive)
         (snd (handlePopState (Some entryFive) plainWorld)))) = 0"
proof -
  have h: "handlePopState (Some entryFive) plainWorld = (None, emit Reload plainWorld)"
    using plainWorld_disabled by (simp add: handlePopState_def)
  have e: "\<not> isViewTransitionsEnabled (emit Reload plainWorld)"
    using plainWorld_disabled by (simp add: isViewTransitionsEnabled_def)
  have h2: "handlePopState (Some entryFive) (emit Reload plainWorld)
      = (None, emit Reload (emit Reload plainWorld))"
    using e by (simp add: handlePopState_def)
  show ?thesis
    unfolding h snd_conv h2
    by (simp add: plainWorld_def demoWorld_def entryFive_def)
qed

subsection \<open>A destination that has not opted in\<close>

lemma loader_optIn_gate:
  assumes "fetchPage (href (prepTo ev)) options w = (Some response, w1)"
    and "fetchedRedirected response = None"
    and "parseFromString (fetchedHtml response) (fetchedMediaType response) w1 = (parsed, w2)"
    and "find (matchesName enabledMarker) (forestElements (concat (map dropNoscript parsed))) = None"
    and "\<not> defaultPrevented ev"
  shows "defaultPrevented (fst (snd (loader options ev w))) \<longleftrightarrow> optFormData options = None"
  using assms by (simp add: loader_def Let_def case_prod_beta)

text \<open>
  C2. The loader cancels exactly when there is no form data (\<open>loader_optIn_gate\<close>), and a
  form submission to a page without the marker is not cancelled. The claim goes on: the
  navigation proceeds via soft swap. It does not: performPageSwap always throws
  (\<open>performPageSwap_throws\<close>). For the form submission to \<^verbatim>\<open>/b\<close>, whose document has
  no marker, the event is not cancelled, no full navigation is started, and navigateToPage
  ends with a \<^verbatim>\<open>TypeError\<close> after the before-swap event, with the old body still in the
  document and the address unchanged.
\<close>

theorem navigateToPage_formData_swap_throws:
  "\<not> defaultPrevented (fst (snd (dispatchBeforePreparation herePage pageB Forward Push
        formOptions (scrollSnapshot None plainDestinationWorld))))
   \<and> fst (navigateToPage Forward herePage pageB formOptions None plainDestinationWorld)
       = Some TypeError
   \<and> trace (snd (navigateToPage Forward herePage pageB formOptions None plainDestinationWorld))
       = [ReplaceState (Some \<lparr>index = 0, scrollX = 0, scrollY = 120, callerState = []\<rparr>) None,
          Dispatch ''mkdocs:before-preparation'',
          Fetch ''https://wiki.example/b'' (Some ''title=B''),
          Dispatch ''mkdocs:after-preparation'',
          ReplaceState (Some \<lparr>index = 0, scrollX = 0, scrollY = 120, callerState = []\<rparr>) None,
          StartViewTransition,
          Dispatch ''mkdocs:before-swap'']
   \<and> bodyOf (document (snd (navigateToPage Forward herePage pageB formOptions None
                               plainDestinationWorld)))
       = bodyOf (document plainDestinationWorld)
   \<and> location (snd (navigateToPage Forward herePage pageB formOptions None
                       plainDestinationWorld))
       = herePage"
proof -
  have a: "\<not> defaultPrevented (fst (snd (dispatchBeforePreparation herePage pageB Forward Push
        formOptions (scrollSnapshot None plainDestinationWorld))))"
    by code_simp
  have b: "fst (navigateToPage Forward herePage pageB formOptions None plainDestinationWorld)
       = Some TypeError"
    by code_simp
  have c: "trace (snd (navigateToPage Forward herePage pageB formOptions None plainDestinationWorld))
       = [ReplaceState (Some \<lparr>index = 0, scrollX = 0, scrollY = 120, callerState = []\<rparr>) None,
          Dispatch ''mkdocs:before-preparation'',
          Fetch ''https://wiki.example/b'' (Some ''title=B''),
          Dispatch ''mkdocs:after-preparation'',
          ReplaceState (Some \<lparr>index = 0, scrollX = 0, scrollY = 120, callerState = []\<rparr>) None,
          StartViewTransition,
          Dispatch ''mkdocs:before-swap'']"
    by code_simp
  have d: "bodyOf (document (snd (navigateToPage Forward herePage pageB formOptions None
                               plainDestinationWorld)))
       = bodyOf (document plainDestinationWorld)"
    by code_simp
  have e: "location (snd (navigateToPage Forward herePage pageB formOptions None
                       plainDestinationWorld))
       = herePage"
    by code_simp
  show ?thesis
    using a b c d e by blast
qed

theorem navigateToPage_formData_swap_throws_witness:
  "fst (navigateToPage Forward herePage pageB formOptions None plainDestinationWorld)
     = Some TypeError
   \<and> bodyOf (document (snd (navigateToPage Forward herePage pageB formOptions None
                               plainDestinationWorld)))
       = bodyOf (document plainDestinationWorld)"
  using navigateToPage_formData_swap_throws by blast

subsection \<open>Script re-execution\<close>

lemma getAttribute_setAttribute: "getAttribute (setAttribute n v as) n = Some v"
  by (induction as) (auto simp add: getAttribute_def)

lemma forestElements_simps [simp]:
  "forestElements [] = []"
  "forestElements (n # ns) = elements n @ forestElements ns"
  "forestElements (ms @ ns) = forestElements ms @ forestElements ns"
  by (simp_all add: forestElements_def)

lemma elements_Element: "elements (Element i t a ks) = Element i t a ks # forestElements ks"
  by (simp add: forestElements_def)

lemma forestElements_concat: "forestElements (concat xs) = concat (map forestElements xs)"
  by (induction xs) simp_all

lemma elements_are_elements: "e \<in> set (elements n) \<Longrightarrow> isElement e"
proof (induction n)
  case (Element i t a ks)
  then show ?case by (auto simp add: forestElements_def)
next
  case (Text s)
  then show ?case by simp
qed

lemma forestElements_are_elements: "e \<in> set (forestElements ns) \<Longrightarrow> isElement e"
  by (auto simp add: forestElements_def dest: elements_are_elements)

lemma attrOf_attributes: "isElement e \<Longrightarrow> attrOf n e = getAttribute (attributes e) n"
  by (cases e) simp_all

lemma hasTag_localName: "isElement e \<Longrightarrow> hasTag t e = (localName e = t)"
  by (cases e) simp_all

lemma isSkipped_attributes:
  "isElement e \<Longrightarrow> isElement s \<Longrightarrow> attributes e = attributes s \<Longrightarrow> isSkipped e = isSkipped s"
  by (simp add: isSkipped_def skipsForType_def attrOf_attributes)

text \<open>
  What a substitution leaves of a tree: an element of the result comes from what was put
  in, or it is an element of the old tree with another identity, and has its name and its
  attributes.
\<close>

lemma substNode_elements:
  "e' \<in> set (forestElements (substNode i f n)) \<Longrightarrow>
   (\<exists>m \<in> set (elements n). ident m = i \<and> e' \<in> set (forestElements (f m)))
   \<or> (\<exists>e \<in> set (elements n). ident e \<noteq> i \<and> ident e' = ident e
          \<and> localName e' = localName e \<and> attributes e' = attributes e)"
proof (induction n)
  case (Text s)
  then show ?case by simp
next
  case (Element j t a ks)
  show ?case
  proof (cases "j = i")
    case True
    then show ?thesis
      using Element.prems by auto
  next
    case False
    then have "e' = Element j t a (concat (map (substNode i f) ks))
        \<or> (\<exists>k \<in> set ks. e' \<in> set (forestElements (substNode i f k)))"
      using Element.prems by (auto simp add: forestElements_def)
    then show ?thesis
    proof
      assume "e' = Element j t a (concat (map (substNode i f) ks))"
      then show ?thesis
        using False by auto
    next
      assume "\<exists>k \<in> set ks. e' \<in> set (forestElements (substNode i f k))"
      then obtain k where k: "k \<in> set ks" "e' \<in> set (forestElements (substNode i f k))"
        by blast
      have sub: "set (elements k) \<subseteq> set (elements (Element j t a ks))"
        using k(1) by auto
      show ?thesis
        using Element.IH [OF k] sub by blast
    qed
  qed
qed

lemma substForest_elements:
  "e' \<in> set (forestElements (substForest i f d)) \<Longrightarrow>
   (\<exists>m \<in> set (forestElements d). ident m = i \<and> e' \<in> set (forestElements (f m)))
   \<or> (\<exists>e \<in> set (forestElements d). ident e \<noteq> i \<and> ident e' = ident e
          \<and> localName e' = localName e \<and> attributes e' = attributes e)"
proof -
  assume "e' \<in> set (forestElements (substForest i f d))"
  then obtain n where n: "n \<in> set d" "e' \<in> set (forestElements (substNode i f n))"
    by (auto simp add: substForest_def forestElements_concat)
  have "set (elements n) \<subseteq> set (forestElements d)"
    using n(1) by (auto simp add: forestElements_def)
  then show ?thesis
    using substNode_elements [OF n(2)] by blast
qed

lemma forestElements_scriptContent [simp]: "forestElements (scriptContent ks) = []"
  by (simp add: scriptContent_def split: list.splits)

lemma executeScript_skipped: "isSkipped s \<Longrightarrow> executeScript s w = w"
  by (auto simp add: executeScript_def isSkipped_def)

lemma fold_executeScript_skipped:
  "\<forall>s \<in> set xs. isSkipped s \<Longrightarrow> fold executeScript xs w = w"
  by (induction xs) (simp_all add: executeScript_skipped)

lemma document_recreateScript:
  "document (recreateScript script w)
     = (if ident script \<in> set (idents (document w))
        then substForest (ident script)
               (\<lambda>e. [Element (nextId w) ''script''
                          (setAttribute execMarker [] (copyAttributes (attributes script)))
                          (scriptContent (childNodes script))])
               (document w)
        else document w)"
  by (simp add: recreateScript_def createElement_def Let_def dropLostFocus_def emit_def
      split: option.splits)

text \<open>
  The invariant of the loop: a script of the document is passed over, or it is still to
  come in the list, with the attributes the list holds for it.
\<close>

lemma executeScript_invariant:
  assumes inv: "\<forall>e \<in> set (scriptsOf (document w)).
        isSkipped e \<or> (\<exists>s \<in> set (s0 # rest). ident s = ident e \<and> attributes s = attributes e)"
    and s0: "isElement s0"
  shows "\<forall>e \<in> set (scriptsOf (document (executeScript s0 w))).
        isSkipped e \<or> (\<exists>s \<in> set rest. ident s = ident e \<and> attributes s = attributes e)"
proof (cases "isSkipped s0")
  case True
  show ?thesis
  proof
    fix e
    assume e: "e \<in> set (scriptsOf (document (executeScript s0 w)))"
    then have e': "e \<in> set (scriptsOf (document w))"
      using True by (simp add: executeScript_skipped)
    then have el: "isElement e"
      by (auto simp add: scriptsOf_def dest: forestElements_are_elements)
    show "isSkipped e \<or> (\<exists>s \<in> set rest. ident s = ident e \<and> attributes s = attributes e)"
      using inv e' True isSkipped_attributes [OF el s0] by auto
  qed
next
  case False
  then have run: "executeScript s0 w = recreateScript s0 w"
    by (auto simp add: executeScript_def isSkipped_def)
  let ?new = "Element (nextId w) ''script''
                (setAttribute execMarker [] (copyAttributes (attributes s0)))
                (scriptContent (childNodes s0))"
  have new: "isSkipped ?new"
    by (simp add: isSkipped_def getAttribute_setAttribute)
  show ?thesis
  proof
    fix e'
    assume e': "e' \<in> set (scriptsOf (document (executeScript s0 w)))"
    show "isSkipped e' \<or> (\<exists>s \<in> set rest. ident s = ident e' \<and> attributes s = attributes e')"
    proof (cases "ident s0 \<in> set (idents (document w))")
      case False
      then have e: "e' \<in> set (scriptsOf (document w))"
        using e' by (simp add: run document_recreateScript)
      have "ident e' \<in> set (idents (document w))"
        using e by (simp add: scriptsOf_def idents_def)
      then have "ident e' \<noteq> ident s0"
        using False by metis
      then show ?thesis
        using inv e by auto
    next
      case True
      have tag: "hasTag ''script'' e'" and el': "isElement e'"
        using e' by (auto simp add: scriptsOf_def dest: forestElements_are_elements)
      have "e' \<in> set (forestElements (substForest (ident s0) (\<lambda>e. [?new]) (document w)))"
        using e' True by (simp add: run document_recreateScript scriptsOf_def)
      then consider (fresh) "e' \<in> set (forestElements [?new])"
        | (old) e where "e \<in> set (forestElements (document w))" "ident e \<noteq> ident s0"
            "ident e' = ident e" "localName e' = localName e" "attributes e' = attributes e"
        using substForest_elements [of e' "ident s0" "\<lambda>e. [?new]" "document w"] by blast
      then show ?thesis
      proof cases
        case fresh
        then have "e' = ?new"
          by (simp add: elements_Element del: elements.simps)
        then show ?thesis
          using new by simp
      next
        case old
        have el: "isElement e"
          using old(1) by (rule forestElements_are_elements)
        have "hasTag ''script'' e"
          using tag old(4) by (simp add: hasTag_localName el el')
        then have "e \<in> set (scriptsOf (document w))"
          using old(1) by (simp add: scriptsOf_def)
        then have "isSkipped e
            \<or> (\<exists>s \<in> set (s0 # rest). ident s = ident e \<and> attributes s = attributes e)"
          using inv by blast
        then show ?thesis
          using old(2,3,5) isSkipped_attributes [OF el' el] by auto
      qed
    qed
  qed
qed

lemma fold_executeScript_invariant:
  assumes "\<forall>e \<in> set (scriptsOf (document w)).
        isSkipped e \<or> (\<exists>s \<in> set todo. ident s = ident e \<and> attributes s = attributes e)"
    and "\<forall>s \<in> set todo. isElement s"
  shows "\<forall>e \<in> set (scriptsOf (document (fold executeScript todo w))). isSkipped e"
  using assms
proof (induction todo arbitrary: w)
  case Nil
  then show ?case by simp
next
  case (Cons s0 rest)
  have "\<forall>e \<in> set (scriptsOf (document (executeScript s0 w))).
        isSkipped e \<or> (\<exists>s \<in> set rest. ident s = ident e \<and> attributes s = attributes e)"
    using Cons.prems by (intro executeScript_invariant) simp_all
  then show ?case
    using Cons.IH [of "executeScript s0 w"] Cons.prems(2) by simp
qed

lemma executeScripts_all_skipped:
  "\<forall>e \<in> set (scriptsOf (document (executeScripts w))). isSkipped e"
  unfolding executeScripts_def
proof (rule fold_executeScript_invariant)
  show "\<forall>e \<in> set (scriptsOf (document w)).
      isSkipped e \<or> (\<exists>s \<in> set (scriptsOf (document w)). ident s = ident e \<and> attributes s = attributes e)"
    by blast
  show "\<forall>s \<in> set (scriptsOf (document w)). isElement s"
    by (auto simp add: scriptsOf_def dest: forestElements_are_elements)
qed

text \<open>
  C9. After executeScripts every script element of the document carries the marker or
  has a type the loop passes over; the script a turn of the loop creates carries the
  marker. A second call therefore changes nothing: the page after it is the page before
  it, with the same script elements, and no further script is run or awaited.
\<close>

theorem executeScripts_idempotent:
  "executeScripts (executeScripts w) = executeScripts w
   \<and> (\<forall>s \<in> set (scriptsOf (document (executeScripts w))).
         attrOf execMarker s = Some [] \<or> skipsForType s)
   \<and> attrOf execMarker
        (Element k ''script'' (setAttribute execMarker [] (copyAttributes as)) content) = Some []"
proof -
  have "fold executeScript (scriptsOf (document (executeScripts w))) (executeScripts w)
      = executeScripts w"
    using executeScripts_all_skipped by (rule fold_executeScript_skipped)
  then have "executeScripts (executeScripts w) = executeScripts w"
    by (simp add: executeScripts_def)
  then show ?thesis
    using executeScripts_all_skipped [of w]
    by (simp add: isSkipped_def getAttribute_setAttribute)
qed

theorem executeScripts_idempotent_witness:
  "scriptsOf (document (executeScripts scriptWorld))
     = [Element 7 ''script'' [(''src'', ''/app.js''), (''type'', ''module''), (''data-mkdocs-exec'', [])] [],
        Element 8 ''script'' [(''data-mkdocs-exec'', [])] [Text ''init()''],
        Element 5 ''script'' [(''type'', ''application/json'')] [Text ''{}''],
        Element 6 ''script'' [(''data-mkdocs-exec'', [])] [Text ''boot()'']]
   \<and> trace (executeScripts scriptWorld) = [AwaitLoad 7, RunScript 7, RunScript 8]
   \<and> executeScripts (executeScripts scriptWorld) = executeScripts scriptWorld
   \<and> trace (executeScripts (executeScripts scriptWorld)) = [AwaitLoad 7, RunScript 7, RunScript 8]"
proof -
  have a: "scriptsOf (document (executeScripts scriptWorld))
     = [Element 7 ''script'' [(''src'', ''/app.js''), (''type'', ''module''), (''data-mkdocs-exec'', [])] [],
        Element 8 ''script'' [(''data-mkdocs-exec'', [])] [Text ''init()''],
        Element 5 ''script'' [(''type'', ''application/json'')] [Text ''{}''],
        Element 6 ''script'' [(''data-mkdocs-exec'', [])] [Text ''boot()'']]"
    by code_simp
  have b: "trace (executeScripts scriptWorld) = [AwaitLoad 7, RunScript 7, RunScript 8]"
    by code_simp
  have c: "executeScripts (executeScripts scriptWorld) = executeScripts scriptWorld"
    using executeScripts_idempotent [of scriptWorld] by blast
  show ?thesis
    using a b c by simp
qed

subsection \<open>The swap of a page with one persistent text control\<close>

lemma identBag_simps [simp]:
  "identBag [] = {#}"
  "identBag (n # ns) = nodeBag n + identBag ns"
  "identBag (ms @ ns) = identBag ms + identBag ns"
  by (simp_all add: identBag_def nodeBag_def idents_def)

lemma nodeBag_simps [simp]:
  "nodeBag (Text s) = {#}"
  "nodeBag (Element i t a ks) = add_mset i (identBag ks)"
  by (simp_all add: identBag_def nodeBag_def idents_def forestElements_def)
















lemma identBag_filter_isElement [simp]: "identBag (filter isElement ks) = identBag ks"
proof (induction ks)
  case Nil
  show ?case by simp
next
  case (Cons k ks)
  then show ?case by (cases k) simp_all
qed






































end
